theory Spec2Isabelle
  imports Complex_Main "HOL-Library.Sublist" "HOL-Library.Multiset"
begin

section \<open>Strings and cells\<close>

text \<open>
  A Python \<open>str\<close> is a sequence of Unicode code points; it is modelled as a list of
  natural numbers, one per code point, so that the Chinese header names of the tools are
  ordinary list literals. \<open>asc\<close> turns an ASCII literal into such a list.

  A spreadsheet cell as pandas hands it to the tools is either missing (\<open>NaN\<close>/\<open>None\<close>,
  here \<open>None\<close>) or a value, represented by its text \<open>str(val)\<close>.
\<close>

type_synonym pystr = "nat list"

type_synonym cell = "pystr option"

definition asc :: "string \<Rightarrow> pystr" where
  "asc s = map of_char s"

text \<open>
  \<open>str.isspace\<close> for one code point: the white-space table of CPython
  (\<open>_PyUnicode_IsWhitespace\<close>). It contains tab, newline, carriage return, the ASCII
  space and the full-width (ideographic) space U+3000.
\<close>

definition py_isspace :: "nat \<Rightarrow> bool" where
  "py_isspace c =
     ((9 \<le> c \<and> c \<le> 13) \<or> (28 \<le> c \<and> c \<le> 32) \<or> c = 133 \<or> c = 160 \<or> c = 5760 \<or>
      (8192 \<le> c \<and> c \<le> 8202) \<or> c = 8232 \<or> c = 8233 \<or> c = 8239 \<or> c = 8287 \<or>
      c = 12288)"

text \<open>\<open>s.strip()\<close>: white space removed at both ends.\<close>

definition py_strip :: "pystr \<Rightarrow> pystr" where
  "py_strip s = rev (dropWhile py_isspace (rev (dropWhile py_isspace s)))"

text \<open>\<open>s.replace(c, '')\<close> for a one-character string \<open>c\<close>: every occurrence goes.\<close>

definition py_remove :: "nat \<Rightarrow> pystr \<Rightarrow> pystr" where
  "py_remove c s = filter (\<lambda>x. x \<noteq> c) s"

text \<open>\<open>sub in s\<close>: \<open>sub\<close> occurs in \<open>s\<close> as a contiguous substring.\<close>

fun py_in :: "pystr \<Rightarrow> pystr \<Rightarrow> bool" where
  "py_in sub [] = (sub = [])"
| "py_in sub (c # cs) = (prefix sub (c # cs) \<or> py_in sub cs)"

text \<open>\<open>s.startswith(p)\<close>.\<close>

definition startswith :: "pystr \<Rightarrow> pystr \<Rightarrow> bool" where
  "startswith s p = prefix p s"

text \<open>
  ASCII case mapping on code points. Python's \<open>str.lower\<close> and \<open>str.upper\<close> are library
  functions over all of Unicode; the functions of the tools that call them take them as
  the parameters \<open>lower\<close> and \<open>upper\<close>, and the theorems hold for every such function.
  On ASCII text (and on uncased text such as Chinese) they are the two functions below,
  which the concrete examples use.
\<close>

definition ascii_lower_cp :: "nat \<Rightarrow> nat" where
  "ascii_lower_cp c = (if 65 \<le> c \<and> c \<le> 90 then c + 32 else c)"

definition ascii_upper_cp :: "nat \<Rightarrow> nat" where
  "ascii_upper_cp c = (if 97 \<le> c \<and> c \<le> 122 then c - 32 else c)"

definition ascii_lower :: "pystr \<Rightarrow> pystr" where
  "ascii_lower s = map ascii_lower_cp s"

definition ascii_upper :: "pystr \<Rightarrow> pystr" where
  "ascii_upper s = map ascii_upper_cp s"

section \<open>process_non_self_purchase_components.py: cleaning and column matching\<close>

text \<open>
  \<open>clean_invalid_content(val)\<close>: a missing value stays missing; otherwise the text is
  stripped, the full-width space, tab, newline and carriage return are removed
  everywhere, and an empty result counts as missing.
\<close>

definition clean_invalid_content :: "cell \<Rightarrow> cell" where
  "clean_invalid_content val =
     (case val of
        None \<Rightarrow> None
      | Some v \<Rightarrow>
          (let str_val = py_strip v;
               str_val = py_remove 13 (py_remove 10 (py_remove 9 (py_remove 12288 str_val)))
           in if str_val \<noteq> [] then Some str_val else None))"

text \<open>
  \<open>match_column_name(df_columns, target_names)\<close>. The outer loop runs over the variant
  names, the inner loop over the lower-cased headers in column order; the first hit
  returns the header as it is written in the table.
\<close>

fun scan_columns :: "(pystr \<Rightarrow> pystr) \<Rightarrow> pystr \<Rightarrow> pystr list \<Rightarrow> pystr option" where
  "scan_columns lower target_lower [] = None"
| "scan_columns lower target_lower (col # cols) =
     (if py_in target_lower (lower col) then Some col
      else scan_columns lower target_lower cols)"

fun match_column_name :: "(pystr \<Rightarrow> pystr) \<Rightarrow> pystr list \<Rightarrow> pystr list \<Rightarrow> pystr option" where
  "match_column_name lower df_columns [] = None"
| "match_column_name lower df_columns (target # targets) =
     (case scan_columns lower (lower target) df_columns of
        Some col \<Rightarrow> Some col
      | None \<Rightarrow> match_column_name lower df_columns targets)"

text \<open>
  A table as \<open>pandas\<close> holds it: the column names in order, and the rows, each a mapping
  from column name to cell.
\<close>

type_synonym row = "pystr \<Rightarrow> cell"

record dataframe =
  columns :: "pystr list"
  rows :: "row list"

text \<open>
  The \<open>column_mapping\<close> of \<open>judge_non_self_purchase\<close>: the header variants of the three
  purchase indicators (Taobao link, order configuration, minimum order quantity). The
  Chinese names are written by their code points.
\<close>

definition taobao_link_names :: "pystr list" where
  "taobao_link_names =
     [[28120, 23453, 38142, 25509], [28120, 23453, 32593, 22336],
      asc ''taobao'', asc ''taobao url'']"

definition order_config_names :: "pystr list" where
  "order_config_names =
     [[19979, 21333, 37197, 32622], [35268, 26684], [37197, 32622],
      asc ''spec'', asc ''specification'']"

definition min_order_names :: "pystr list" where
  "min_order_names =
     [[26368, 23567, 36215, 35746, 37327], [35746, 36141, 37327],
      [26368, 23567, 35746, 36141, 37327], asc ''moq'', asc ''min order'']"

text \<open>
  The cleaned indicator column: \<open>df_copy[col].apply(clean_invalid_content)\<close> when the
  column was matched (\<open>if col:\<close> holds for a matched name that is not the empty string),
  and \<open>None\<close> in every row otherwise.
\<close>

definition clean_column :: "pystr option \<Rightarrow> row \<Rightarrow> cell" where
  "clean_column col r =
     (case col of
        None \<Rightarrow> None
      | Some c \<Rightarrow> if c \<noteq> [] then clean_invalid_content (r c) else None)"

text \<open>
  The three assignments \<open>df_copy['clean_...'] = ...\<close> on one row, in the order of the
  source: each reads the row as the earlier assignments left it.
\<close>

definition add_clean_columns :: "pystr option \<Rightarrow> pystr option \<Rightarrow> pystr option \<Rightarrow> row \<Rightarrow> row" where
  "add_clean_columns taobao_col order_col min_order_col r =
     (let r1 = r(asc ''clean_taobao'' := clean_column taobao_col r);
          r2 = r1(asc ''clean_order'' := clean_column order_col r1);
          r3 = r2(asc ''clean_min_order'' := clean_column min_order_col r2)
      in r3)"

text \<open>The row mask of \<open>judge_non_self_purchase\<close>: all three cleaned cells are missing.\<close>

definition non_self_mask :: "row \<Rightarrow> bool" where
  "non_self_mask r =
     (r (asc ''clean_taobao'') = None \<and> r (asc ''clean_order'') = None \<and>
      r (asc ''clean_min_order'') = None)"

text \<open>
  \<open>judge_non_self_purchase(df)\<close>: the rows of \<open>df\<close>, with the three cleaned columns, that
  the mask keeps. The source then adds the column of module names computed from the
  \<open>file_path\<close> column; that column does not enter the selection and is left out here.
\<close>

definition judge_non_self_purchase :: "(pystr \<Rightarrow> pystr) \<Rightarrow> dataframe \<Rightarrow> dataframe" where
  "judge_non_self_purchase lower df =
     (let taobao_col = match_column_name lower (columns df) taobao_link_names;
          order_col = match_column_name lower (columns df) order_config_names;
          min_order_col = match_column_name lower (columns df) min_order_names;
          df_copy = map (add_clean_columns taobao_col order_col min_order_col) (rows df)
      in \<lparr>columns = columns df @
                      filter (\<lambda>c. c \<notin> set (columns df))
                        [asc ''clean_taobao'', asc ''clean_order'', asc ''clean_min_order''],
          rows = filter non_self_mask df_copy\<rparr>)"

text \<open>
  \<open>classify_component(designator)\<close>. The categories are the nine labels the function
  returns; \<open>category_label\<close> gives the text of each.
\<close>

datatype category =
  Unknown | Resistor | Capacitor | Diode | Transistor | Integrated_Circuit | Switch |
  Connector | Other

fun category_label :: "category \<Rightarrow> pystr" where
  "category_label Unknown = [26410, 30693, 65288, 26080, 20301, 21495, 65289]"
| "category_label Resistor = [30005, 38459]"
| "category_label Capacitor = [30005, 23481]"
| "category_label Diode = [20108, 26497, 31649]"
| "category_label Transistor = [26230, 20307, 31649]"
| "category_label Integrated_Circuit = [38598, 25104, 30005, 36335]"
| "category_label Switch = [24320, 20851]"
| "category_label Connector = [36830, 25509, 22120]"
| "category_label Other = [20854, 20182]"

definition classify_component :: "(pystr \<Rightarrow> pystr) \<Rightarrow> cell \<Rightarrow> category" where
  "classify_component upper designator =
     (case designator of
        None \<Rightarrow> Unknown
      | Some d \<Rightarrow>
          (let designator_str = upper (py_strip d)
           in if startswith designator_str (asc ''R'') then Resistor
              else if startswith designator_str (asc ''C'') then Capacitor
              else if startswith designator_str (asc ''LED'') then Diode
              else if startswith designator_str (asc ''Q'') then Transistor
              else if startswith designator_str (asc ''U'') then Integrated_Circuit
              else if startswith designator_str (asc ''SW'') then Switch
              else if list_ex (\<lambda>prefix. py_in prefix designator_str)
                        [asc ''J'', asc ''CN'', asc ''USB''] then Connector
              else Other))"

text \<open>
  A cell of the table that \<open>process_bom_file\<close> returns and \<open>main\<close> concatenates.
  \<open>clean_invalid_content\<close> leaves a non-empty text or \<open>None\<close> in every cell. \<open>pandas\<close> may
  hold a missing cell as the float \<open>NaN\<close> instead: \<open>np.nan\<close> is what \<open>process_bom_file\<close>
  writes into a column that the file lacks, and what a column of a string type holds
  for a missing text; which of the two a cell of the concatenated table holds depends
  on the type that the version of \<open>pandas\<close> at hand infers for the column. An entry is
  therefore a text, \<open>NaN\<close> or \<open>None\<close>, and \<open>isna\<close> holds of the latter two.
\<close>

datatype entry = Nan | Py_None | Text pystr

fun isna :: "entry \<Rightarrow> bool" where
  "isna Nan = True"
| "isna Py_None = True"
| "isna (Text s) = False"

text \<open>One row of that table: the six standard columns.\<close>

record component =
  module_of :: entry
  designator :: entry
  supplier_part :: entry
  component_type :: entry
  manufacturer_part :: entry
  manufacturer :: entry

text \<open>
  \<open>DataFrame.drop_duplicates(subset=..., keep='first')\<close>: the rows are read in order, a
  row whose key was seen before is dropped, any other row is kept as it is; \<open>key\<close> reads
  the subset columns of a row. With one key column \<open>pandas\<close> compares the keys in its hash
  table for objects: by identity, then by \<open>==\<close>, with every \<open>NaN\<close> equal to every \<open>NaN\<close>.
  On entries this is the equality of the datatype: equal texts are equal, \<open>NaN\<close> equals
  \<open>NaN\<close>, \<open>None\<close> equals \<open>None\<close>, and \<open>NaN\<close> differs from \<open>None\<close>. With several key columns
  \<open>pandas\<close> compares the codes of the cells, and all missing cells have one code.
\<close>

fun drop_duplicates_first :: "('r \<Rightarrow> 'k) \<Rightarrow> 'k list \<Rightarrow> 'r list \<Rightarrow> 'r list" where
  "drop_duplicates_first key seen [] = []"
| "drop_duplicates_first key seen (r # rs) =
     (if key r \<in> set seen then drop_duplicates_first key seen rs
      else r # drop_duplicates_first key (key r # seen) rs)"

text \<open>\<open>deduplicate_components(all_components)\<close>: by \<open>Supplier Part\<close>, first record kept.\<close>

definition deduplicate_components :: "component list \<Rightarrow> component list" where
  "deduplicate_components all_components =
     (if all_components = [] then all_components
      else drop_duplicates_first supplier_part [] all_components)"

text \<open>
  \<open>split_regular_special(components_df)\<close>. A record is special when its designator is
  missing, its supplier part is missing, or its type is the label of \<open>Other\<close>. The
  regular table keeps three columns, the special table four; \<open>fillna\<close> writes the text
  \<open>wu\<close> (U+65E0, "none") into every missing cell.
\<close>

definition is_special :: "component \<Rightarrow> bool" where
  "is_special r =
     (let condition1 = isna (designator r);
          condition2 = isna (supplier_part r);
          condition3 = (component_type r = Text (category_label Other))
      in condition1 \<or> condition2 \<or> condition3)"

definition fillna_wu :: "entry \<Rightarrow> pystr" where
  "fillna_wu c = (if isna c then [26080] else (case c of Text s \<Rightarrow> s | _ \<Rightarrow> []))"

definition regular_final :: "component \<Rightarrow> pystr list" where
  "regular_final r =
     [fillna_wu (component_type r), fillna_wu (manufacturer_part r), fillna_wu (supplier_part r)]"

definition special_final :: "component \<Rightarrow> pystr list" where
  "special_final r =
     [fillna_wu (module_of r), fillna_wu (component_type r),
      fillna_wu (manufacturer_part r), fillna_wu (supplier_part r)]"

definition split_regular_special :: "component list \<Rightarrow> pystr list list \<times> pystr list list" where
  "split_regular_special components_df =
     (let special_df = filter is_special components_df;
          regular_df = filter (\<lambda>r. \<not> is_special r) components_df
      in (map regular_final regular_df, map special_final special_df))"

text \<open>
  The rule list of the classifier as an ordered table of predicates on the trimmed,
  upper-cased designator, read first match wins, with \<open>Other\<close> when no rule applies.
\<close>

definition taxonomy :: "((pystr \<Rightarrow> bool) \<times> category) list" where
  "taxonomy =
     [(prefix (asc ''R''), Resistor),
      (prefix (asc ''C''), Capacitor),
      (prefix (asc ''LED''), Diode),
      (prefix (asc ''Q''), Transistor),
      (prefix (asc ''U''), Integrated_Circuit),
      (prefix (asc ''SW''), Switch),
      (\<lambda>s. sublist (asc ''J'') s \<or> sublist (asc ''CN'') s \<or> sublist (asc ''USB'') s, Connector)]"

definition first_match :: "pystr \<Rightarrow> category" where
  "first_match s = (case find (\<lambda>rule. fst rule s) taxonomy of
                      None \<Rightarrow> Other
                    | Some rule \<Rightarrow> snd rule)"

text \<open>
  An indicator field of a row is blank when its column is unresolved, or the cell is
  missing, or the cell is empty once the white space at its ends is trimmed.
\<close>

definition blank_cell :: "cell \<Rightarrow> bool" where
  "blank_cell c = (case c of None \<Rightarrow> True | Some s \<Rightarrow> py_strip s = [])"

definition indicator_blank :: "pystr option \<Rightarrow> row \<Rightarrow> bool" where
  "indicator_blank col r = (case col of None \<Rightarrow> True | Some c \<Rightarrow> blank_cell (r c))"

text \<open>
  What the theorems on \<open>judge_non_self_purchase\<close> ask of \<open>str.lower\<close>: it leaves the
  empty string, the variant names (lower-case ASCII or Chinese) and the two lower-case
  names \<open>clean_taobao\<close> and \<open>clean_order\<close> as they are.
\<close>

definition keeps_names :: "(pystr \<Rightarrow> pystr) \<Rightarrow> bool" where
  "keeps_names lower =
     list_all (\<lambda>s. lower s = s)
       ([[], asc ''clean_taobao'', asc ''clean_order''] @ taobao_link_names @
        order_config_names @ min_order_names)"

section \<open>extract_bom_components.py and modacc_accessory_processor.py\<close>

subsection \<open>File names\<close>

text \<open>
  The two file-name patterns are regular expressions over code points. \<open>Dot\<close> is \<open>.\<close>
  (any code point but newline). \<open>Digit\<close> is \<open>\d\<close>, which in a text pattern is every
  Unicode decimal digit: \<open>digit_ranges\<close> lists them (Unicode 14, as in Python 3.11).
  With the flag \<open>ic\<close> (\<open>re.IGNORECASE\<close>) a literal matches the code points that have the
  same case folding; for the ASCII literals of the patterns these are the two cases of
  the letter and, besides, U+017F for \<open>s\<close>, U+212A for \<open>k\<close>, U+0130 and U+0131 for
  \<open>i\<close>. Matching is by derivatives.
\<close>

definition digit_ranges :: "(nat \<times> nat) list" where
  "digit_ranges =
     [(48, 57), (1632, 1641), (1776, 1785), (1984, 1993), (2406, 2415), (2534, 2543),
      (2662, 2671), (2790, 2799), (2918, 2927), (3046, 3055), (3174, 3183), (3302, 3311),
      (3430, 3439), (3558, 3567), (3664, 3673), (3792, 3801), (3872, 3881), (4160, 4169),
      (4240, 4249), (6112, 6121), (6160, 6169), (6470, 6479), (6608, 6617), (6784, 6793),
      (6800, 6809), (6992, 7001), (7088, 7097), (7232, 7241), (7248, 7257), (42528, 42537),
      (43216, 43225), (43264, 43273), (43472, 43481), (43504, 43513), (43600, 43609),
      (44016, 44025), (65296, 65305), (66720, 66729), (68912, 68921), (69734, 69743),
      (69872, 69881), (69942, 69951), (70096, 70105), (70384, 70393), (70736, 70745),
      (70864, 70873), (71248, 71257), (71360, 71369), (71472, 71481), (71904, 71913),
      (72016, 72025), (72784, 72793), (73040, 73049), (73120, 73129), (92768, 92777),
      (92864, 92873), (93008, 93017), (120782, 120831), (123200, 123209), (123632, 123641),
      (125264, 125273), (130032, 130041)]"

definition re_digit :: "nat \<Rightarrow> bool" where
  "re_digit c = list_ex (\<lambda>(lo, hi). lo \<le> c \<and> c \<le> hi) digit_ranges"

definition re_fold :: "nat \<Rightarrow> nat" where
  "re_fold c =
     (if c = 304 \<or> c = 305 then 105
      else if c = 8490 then 107
      else if c = 383 then 115
      else ascii_lower_cp c)"

datatype rx =
  Null | Eps | Lit nat | Dot | Digit | Seq rx rx | Alt rx rx | Star rx

definition Plus :: "rx \<Rightarrow> rx" where
  "Plus r = Seq r (Star r)"

definition Opt :: "rx \<Rightarrow> rx" where
  "Opt r = Alt r Eps"

fun lits :: "pystr \<Rightarrow> rx" where
  "lits [] = Eps"
| "lits (c # cs) = Seq (Lit c) (lits cs)"

fun nullable :: "rx \<Rightarrow> bool" where
  "nullable Null = False"
| "nullable Eps = True"
| "nullable (Lit a) = False"
| "nullable Dot = False"
| "nullable Digit = False"
| "nullable (Seq r s) = (nullable r \<and> nullable s)"
| "nullable (Alt r s) = (nullable r \<or> nullable s)"
| "nullable (Star r) = True"

definition lit_eq :: "bool \<Rightarrow> nat \<Rightarrow> nat \<Rightarrow> bool" where
  "lit_eq ic a c = (if ic then re_fold a = re_fold c else a = c)"

fun deriv :: "bool \<Rightarrow> nat \<Rightarrow> rx \<Rightarrow> rx" where
  "deriv ic c Null = Null"
| "deriv ic c Eps = Null"
| "deriv ic c (Lit a) = (if lit_eq ic a c then Eps else Null)"
| "deriv ic c Dot = (if c \<noteq> 10 then Eps else Null)"
| "deriv ic c Digit = (if re_digit c then Eps else Null)"
| "deriv ic c (Seq r s) =
     (if nullable r then Alt (Seq (deriv ic c r) s) (deriv ic c s)
      else Seq (deriv ic c r) s)"
| "deriv ic c (Alt r s) = Alt (deriv ic c r) (deriv ic c s)"
| "deriv ic c (Star r) = Seq (deriv ic c r) (Star r)"

fun fullmatch :: "bool \<Rightarrow> rx \<Rightarrow> pystr \<Rightarrow> bool" where
  "fullmatch ic r [] = nullable r"
| "fullmatch ic r (c # cs) = fullmatch ic (deriv ic c r) cs"

text \<open>
  A pattern that ends in \<open>$\<close> accepts the end of the text and also the position before a
  final newline.
\<close>

definition match_to_end :: "bool \<Rightarrow> rx \<Rightarrow> pystr \<Rightarrow> bool" where
  "match_to_end ic r s =
     (fullmatch ic r s \<or> (s \<noteq> [] \<and> last s = 10 \<and> fullmatch ic r (butlast s)))"

text \<open>
  \<open>-v\d+\.\d+(\.\d+)?\.(xlsx|xls)\<close>, with the version letter and the extensions of the
  file family.
\<close>

definition version_suffix :: "nat \<Rightarrow> pystr list \<Rightarrow> rx" where
  "version_suffix v exts =
     Seq (Lit 45) (Seq (Lit v) (Seq (Plus Digit) (Seq (Lit 46) (Seq (Plus Digit)
       (Seq (Opt (Seq (Lit 46) (Plus Digit)))
         (Seq (Lit 46) (foldr (\<lambda>e r. Alt (lits e) r) exts Null)))))))"

text \<open>
  \<open>pattern.match(file_name)\<close> for the compiled pattern
  \<open>^PREFIX.+-v\d+\.\d+(\.\d+)?\.(ext|...)$\<close> with \<open>re.IGNORECASE\<close>.
\<close>

definition file_pattern_match :: "pystr \<Rightarrow> nat \<Rightarrow> pystr list \<Rightarrow> pystr \<Rightarrow> bool" where
  "file_pattern_match pre v exts file_name =
     match_to_end True (Seq (lits pre) (Seq (Plus Dot) (version_suffix v exts))) file_name"

text \<open>
  \<open>re.sub(r'^PREFIX(.+)-v\d+\.\d+(\.\d+)?\.(ext|...)$', r'\1', file_name, re.IGNORECASE)\<close>.
  The fourth positional argument of \<open>re.sub\<close> is \<open>count\<close>, so the call runs with
  \<open>count = 2\<close> and without flags: the pattern is matched case-sensitively. The pattern
  is anchored at the start, so at most one match is replaced. Group 1 is greedy: it is
  the longest non-empty, newline-free text after the prefix that the version suffix can
  follow up to the end. The match is replaced by group 1; a file name that does not
  match is returned as it is.
\<close>

definition re_sub_group1 :: "pystr \<Rightarrow> rx \<Rightarrow> pystr \<Rightarrow> pystr" where
  "re_sub_group1 pre suf file_name =
     (if \<not> prefix pre file_name then file_name
      else
        (let body = drop (length pre) file_name;
             splits = map (\<lambda>n. (take n body, drop n body)) (rev [1..<Suc (length body)])
         in case find (\<lambda>(g, rest). 10 \<notin> set g \<and> match_to_end False suf rest) splits of
              None \<Rightarrow> file_name
            | Some (g, rest) \<Rightarrow> g @ (if fullmatch False suf rest then [] else [10])))"

subsection \<open>Extraction\<close>

text \<open>
  A value of a processed table is a text cell or a number. Numbers are exact rationals.
  \<open>pandas\<close> holds a numeric column as \<open>int64\<close> or \<open>float64\<close>; a sum that wraps around in
  \<open>int64\<close> or is rounded in \<open>float64\<close> is outside this model, which agrees with the code
  on tables whose values and sums are integers below \<open>2^53\<close> in absolute value (both
  types hold these exactly). A processed row lists its columns with their values, in
  column order.
\<close>

datatype val = Txt cell | Num rat

type_synonym out_row = "(pystr \<times> val) list"

text \<open>
  The configuration that the two tools fix in their first lines: the core columns (all
  mandatory), the columns of the deduplication key, the indicator columns, the numeric
  columns, and the parts of the file-name pattern.
\<close>

record pipeline =
  core_columns :: "pystr list"
  unique_type_cols :: "pystr list"
  filter_columns :: "pystr list"
  numeric_cols :: "pystr list"
  name_prefix :: pystr
  version_letter :: nat
  extensions :: "pystr list"

definition col_taobao :: pystr where "col_taobao = [28120, 23453, 38142, 25509]"
definition col_order :: pystr where "col_order = [19979, 21333, 37197, 32622]"
definition col_min_order :: pystr where "col_min_order = [26368, 23567, 36215, 35746, 37327]"
definition col_module :: pystr where "col_module = [27169, 22359, 21517, 31216]"

definition bom_pipeline :: pipeline where
  "bom_pipeline =
     \<lparr>core_columns = [asc ''Manufacturer Part'', asc ''Quantity'', asc ''Designator'',
                      asc ''Supplier Part'', asc ''LCSC Price'', asc ''Value'',
                      col_taobao, col_order, col_min_order],
      unique_type_cols = [asc ''Manufacturer Part'', asc ''Supplier Part'', asc ''LCSC Price'',
                          col_taobao],
      filter_columns = [col_taobao, col_order, col_min_order],
      numeric_cols = [asc ''Quantity'', asc ''LCSC Price'', asc ''Value''],
      name_prefix = asc ''BOM_'',
      version_letter = 118,
      extensions = [asc ''xlsx'', asc ''xls'']\<rparr>"

definition accessory_pipeline :: pipeline where
  "accessory_pipeline =
     \<lparr>core_columns = [asc ''No.'', asc ''Quantity'', asc ''Manufacturer Part'', asc ''Price'',
                      asc ''Value'', col_taobao, col_order, col_min_order],
      unique_type_cols = [asc ''Manufacturer Part'', asc ''Price'', col_taobao],
      filter_columns = [col_taobao, col_order, col_min_order],
      numeric_cols = [asc ''Quantity'', asc ''Price'', asc ''Value''],
      name_prefix = asc ''ModAcc_'',
      version_letter = 86,
      extensions = [asc ''xlsx'']\<rparr>"

text \<open>The module name of a file, as the extraction loop computes it.\<close>

definition module_name_of :: "pipeline \<Rightarrow> pystr \<Rightarrow> pystr" where
  "module_name_of cfg file_name =
     re_sub_group1 (name_prefix cfg) (version_suffix (version_letter cfg) (extensions cfg))
       file_name"

definition discovered :: "pipeline \<Rightarrow> pystr \<Rightarrow> bool" where
  "discovered cfg file_name =
     file_pattern_match (name_prefix cfg) (version_letter cfg) (extensions cfg) file_name"

text \<open>
  A file of the directory walk: its name and what \<open>pd.read_excel\<close> makes of it, \<open>None\<close>
  when reading raises. The cells are read as text (\<open>dtype=str\<close>).
\<close>

record source_file =
  file_name :: pystr
  content :: "dataframe option"

text \<open>
  \<open>df.columns = df.columns.str.strip()\<close>: the headers are stripped, and a row is read
  by the stripped names. Headers are texts. Two headers may collide once stripped;
  \<open>strip_row\<close> then reads the first column of the name, and \<open>collides\<close> tells that the
  name stands for several columns, in which case \<open>df[col]\<close> is a table and not a column.
\<close>

definition strip_row :: "pystr list \<Rightarrow> row \<Rightarrow> row" where
  "strip_row headers r =
     (\<lambda>c. case find (\<lambda>h. py_strip h = c) headers of None \<Rightarrow> None | Some h \<Rightarrow> r h)"

definition strip_columns :: "dataframe \<Rightarrow> dataframe" where
  "strip_columns df =
     \<lparr>columns = map py_strip (columns df), rows = map (strip_row (columns df)) (rows df)\<rparr>"

definition collides :: "dataframe \<Rightarrow> pystr \<Rightarrow> bool" where
  "collides df col = (1 < length (filter (\<lambda>h. h = col) (columns df)))"

text \<open>
  The row mask of the extraction: some indicator column holds a cell that is present
  and not empty after \<open>str.strip()\<close>.
\<close>

definition self_purchase_mask :: "pystr list \<Rightarrow> row \<Rightarrow> bool" where
  "self_purchase_mask cols r =
     list_ex (\<lambda>col. case r col of None \<Rightarrow> False | Some s \<Rightarrow> py_strip s \<noteq> []) cols"

text \<open>
  \<open>pd.to_numeric(..., errors='coerce').fillna(0)\<close> on one cell. The parser of \<open>pandas\<close>
  is the parameter \<open>to_numeric\<close>; what it cannot read, and a missing cell, become \<open>0\<close>.
\<close>

definition coerce_numeric :: "(pystr \<Rightarrow> rat option) \<Rightarrow> cell \<Rightarrow> rat" where
  "coerce_numeric to_numeric c =
     (case c of
        None \<Rightarrow> 0
      | Some s \<Rightarrow> (case to_numeric s of None \<Rightarrow> 0 | Some q \<Rightarrow> q))"

text \<open>
  \<open>df_filtered[core_columns]\<close> with the numeric columns converted, for one row of the
  file. The row is given under its raw headers; each core column contributes every
  column of the file that carries its name once stripped (one column, unless headers
  collide).
\<close>

definition df_calc_row ::
  "pipeline \<Rightarrow> (pystr \<Rightarrow> rat option) \<Rightarrow> pystr list \<Rightarrow> row \<Rightarrow> out_row" where
  "df_calc_row cfg to_numeric headers r =
     concat
       (map (\<lambda>col.
               map (\<lambda>h. (col, if col \<in> set (numeric_cols cfg)
                               then Num (coerce_numeric to_numeric (r h)) else Txt (r h)))
                 (filter (\<lambda>h. py_strip h = col) headers))
          (core_columns cfg))"

text \<open>The messages that the loop prints, and its state: the tables collected so far.\<close>

datatype message =
  Found pystr | Skipped_Missing pystr "pystr list" | No_Data pystr | Extracted pystr nat |
  Failed pystr

record extraction =
  collected :: "out_row list list"
  printed :: "message list"

definition say :: "message \<Rightarrow> extraction \<Rightarrow> extraction" where
  "say m st = st\<lparr>printed := printed st @ [m]\<rparr>"

text \<open>
  The body of the loop over the files, for one file: the \<open>continue\<close> statements of the
  source are the branches that leave \<open>collected\<close> as it was. Inside the \<open>try\<close> block an
  exception ends the file with the failure message: when reading fails, when an
  indicator column collides (\<open>df_filtered[col].str\<close> is then asked of a table), and when
  a numeric column collides (\<open>pd.to_numeric\<close> is then given a table). The kept rows are
  held under their raw headers and read through \<open>strip_row\<close>.
\<close>

definition process_file ::
  "pipeline \<Rightarrow> (pystr \<Rightarrow> rat option) \<Rightarrow> extraction \<Rightarrow> source_file \<Rightarrow> extraction" where
  "process_file cfg to_numeric st f =
     (if \<not> discovered cfg (file_name f) then st
      else
        (let st = say (Found (file_name f)) st
         in case content f of
              None \<Rightarrow> say (Failed (file_name f)) st
            | Some df0 \<Rightarrow>
                (let df = strip_columns df0;
                     missing_cols = filter (\<lambda>col. col \<notin> set (columns df)) (core_columns cfg)
                 in if missing_cols \<noteq> [] then say (Skipped_Missing (file_name f) missing_cols) st
                    else if list_ex (collides df) (filter_columns cfg)
                    then say (Failed (file_name f)) st
                    else
                      (let df_filtered =
                             filter (\<lambda>r. self_purchase_mask (filter_columns cfg)
                                            (strip_row (columns df0) r)) (rows df0)
                       in if df_filtered = [] then say (No_Data (file_name f)) st
                          else if list_ex (collides df) (numeric_cols cfg)
                          then say (Failed (file_name f)) st
                          else
                            (let df_calc =
                                   map (df_calc_row cfg to_numeric (columns df0)) df_filtered;
                                 name = module_name_of cfg (file_name f);
                                 df_with_module =
                                   map (\<lambda>r. (col_module, Txt (Some name)) # r) df_calc
                             in say (Extracted (file_name f) (length df_with_module))
                                  (st\<lparr>collected := collected st @ [df_with_module]\<rparr>))))))"

definition extract_files ::
  "pipeline \<Rightarrow> (pystr \<Rightarrow> rat option) \<Rightarrow> source_file list \<Rightarrow> extraction" where
  "extract_files cfg to_numeric files =
     foldl (process_file cfg to_numeric) \<lparr>collected = [], printed = []\<rparr> files"

subsection \<open>Totals and type tables\<close>

text \<open>
  The functions below take the table \<open>df_with_module_all\<close> (\<open>df_total\<close> in the accessory
  tool): the concatenation of the collected tables, sorted by module name (in the
  accessory tool also by the column \<open>No.\<close>). The totals are listed per module in the
  order in which the modules first appear in that table.
\<close>

definition module_cell :: "out_row \<Rightarrow> val option" where
  "module_cell r = map_of r col_module"

definition value_of :: "pystr \<Rightarrow> out_row \<Rightarrow> rat" where
  "value_of col r = (case map_of r col of Some (Num q) \<Rightarrow> q | _ \<Rightarrow> 0)"

text \<open>\<open>Series.unique()\<close>: the distinct values in order of first appearance.\<close>

definition unique :: "'a list \<Rightarrow> 'a list" where
  "unique xs = drop_duplicates_first (\<lambda>x. x) [] xs"

text \<open>\<open>df.groupby(module)['Value'].sum()\<close>: one total per module.\<close>

definition module_total :: "out_row list \<Rightarrow> (val option \<times> rat) list" where
  "module_total df =
     map (\<lambda>m. (m, sum_list (map (value_of (asc ''Value'')) (filter (\<lambda>r. module_cell r = m) df))))
       (unique (map module_cell df))"

text \<open>
  \<open>pd.merge(df, module_total, on=module, how='left')\<close> and the move of the new column to
  the second place: every row gets the total of its module.
\<close>

definition merge_total :: "pystr \<Rightarrow> out_row list \<Rightarrow> out_row list" where
  "merge_total total_col df =
     map (\<lambda>r. take 1 r @
              [(total_col, Num (case map_of (module_total df) (module_cell r) of
                                  None \<Rightarrow> 0 | Some t \<Rightarrow> t))] @
              drop 1 r) df"

definition bom_total_col :: pystr where
  "bom_total_col = [33258, 37319, 20803, 22120, 20214, 24635, 20215]"

definition accessory_total_col :: pystr where
  "accessory_total_col = [27169, 22359, 37197, 20214, 24635, 37329, 39069]"

text \<open>
  The grand total of the BOM tool:
  \<open>df.drop_duplicates(subset=[module])[total].sum()\<close>, one row per module.
\<close>

definition bom_total :: "out_row list \<Rightarrow> rat" where
  "bom_total df_with_module_all =
     sum_list (map (value_of bom_total_col)
       (drop_duplicates_first module_cell [] (merge_total bom_total_col df_with_module_all)))"

text \<open>
  The grand total of the accessory tool: \<open>df_total[total].unique().sum()\<close>, the sum of
  the distinct values of the total column.
\<close>

definition accessory_total_amount :: "out_row list \<Rightarrow> rat" where
  "accessory_total_amount df_total =
     sum_list (unique (map (value_of accessory_total_col)
       (merge_total accessory_total_col df_total)))"

text \<open>
  The type table of both tools: \<open>df[core_columns].drop_duplicates(subset=unique_type_cols,
  keep='first')\<close>. The accessory tool then numbers the rows of the table anew in its
  column \<open>No.\<close> (\<open>accessory_df_unique\<close>).
\<close>

definition select_columns :: "pystr list \<Rightarrow> out_row \<Rightarrow> out_row" where
  "select_columns cols r =
     concat (map (\<lambda>c. case map_of r c of None \<Rightarrow> [] | Some v \<Rightarrow> [(c, v)]) cols)"

definition type_key :: "pipeline \<Rightarrow> out_row \<Rightarrow> val option list" where
  "type_key cfg r = map (map_of r) (unique_type_cols cfg)"

definition df_type_unique :: "pipeline \<Rightarrow> out_row list \<Rightarrow> out_row list" where
  "df_type_unique cfg df =
     drop_duplicates_first (type_key cfg) [] (map (select_columns (core_columns cfg)) df)"

definition renumber :: "out_row list \<Rightarrow> out_row list" where
  "renumber df =
     map (\<lambda>(i, r). map (\<lambda>(c, v). if c = asc ''No.'' then (c, Num (of_nat (Suc i))) else (c, v)) r)
       (enumerate 0 df)"

definition accessory_df_unique :: "out_row list \<Rightarrow> out_row list" where
  "accessory_df_unique df_total = renumber (df_type_unique accessory_pipeline df_total)"

text \<open>
  A parser for the examples: it reads a text of ASCII digits as that number, as
  \<open>pd.to_numeric\<close> does, and nothing else.
\<close>

definition digits_to_numeric :: "pystr \<Rightarrow> rat option" where
  "digits_to_numeric s =
     (if s \<noteq> [] \<and> list_all (\<lambda>c. 48 \<le> c \<and> c \<le> 57) s
      then Some (of_nat (foldl (\<lambda>n c. 10 * n + (c - 48)) 0 s)) else None)"

section \<open>Example data\<close>

text \<open>Two records that agree on the supplier part and differ elsewhere, and a third.\<close>

definition rec_a :: component where
  "rec_a = \<lparr>module_of = Text (asc ''Sensor''), designator = Text (asc ''R1''),
            supplier_part = Text (asc ''C25804''), component_type = Text (category_label Resistor),
            manufacturer_part = Text (asc ''0603WAF1002T5E''), manufacturer = Text (asc ''UNI-ROYAL'')\<rparr>"

definition rec_b :: component where
  "rec_b = \<lparr>module_of = Text (asc ''Sensor''), designator = Text (asc ''U1''),
            supplier_part = Text (asc ''C7203''), component_type = Text (category_label Integrated_Circuit),
            manufacturer_part = Text (asc ''STM32F103''), manufacturer = Text (asc ''ST'')\<rparr>"

definition rec_c :: component where
  "rec_c = \<lparr>module_of = Text (asc ''Power''), designator = Text (asc ''R7''),
            supplier_part = Text (asc ''C25804''), component_type = Text (category_label Resistor),
            manufacturer_part = Text (asc ''RC0603FR-0710KL''), manufacturer = Text (asc ''YAGEO'')\<rparr>"

text \<open>
  Three records without supplier part that differ in every other field: the first and
  the third hold \<open>NaN\<close> there, the second holds \<open>None\<close>.
\<close>

definition rec_m1 :: component where
  "rec_m1 = \<lparr>module_of = Text (asc ''Sensor''), designator = Text (asc ''J1''),
             supplier_part = Nan, component_type = Text (category_label Connector),
             manufacturer_part = Text (asc ''HDR-1x4''), manufacturer = Text (asc ''BOOMELE'')\<rparr>"

definition rec_m2 :: component where
  "rec_m2 = \<lparr>module_of = Text (asc ''Power''), designator = Text (asc ''X9''),
             supplier_part = Py_None, component_type = Text (category_label Other),
             manufacturer_part = Text (asc ''XTAL-8M''), manufacturer = Text (asc ''YXC'')\<rparr>"

definition rec_m3 :: component where
  "rec_m3 = \<lparr>module_of = Text (asc ''Display''), designator = Text (asc ''SW2''),
             supplier_part = Nan, component_type = Text (category_label Switch),
             manufacturer_part = Text (asc ''TS-1187''), manufacturer = Text (asc ''XKB'')\<rparr>"

text \<open>
  A small table for the non-self-purchase tool: a designator column, the Taobao link
  column and a column \<open>MOQ\<close>; no column for the order configuration. The first row has
  no link and only a full-width space and a tab as \<open>MOQ\<close>, the second row has a link.
\<close>

definition judge_example :: dataframe where
  "judge_example =
     \<lparr>columns = [asc ''Designator'', col_taobao, asc ''MOQ''],
      rows = [(\<lambda>c. None)(asc ''Designator'' := Some (asc ''R1''), asc ''MOQ'' := Some [12288, 9]),
              (\<lambda>c. None)(asc ''Designator'' := Some (asc ''U2''),
                          col_taobao := Some (asc ''https://item.taobao.com/1''))]\<rparr>"

text \<open>
  The shape of the rows that the extraction loop builds: the module column comes first.
\<close>

definition module_shaped :: "out_row list \<Rightarrow> bool" where
  "module_shaped df = list_all (\<lambda>r. r \<noteq> [] \<and> fst (hd r) = col_module) df"

text \<open>
  Two accessory lists, one row each. Both rows carry a Taobao link, so both are
  self-purchase rows, and both have the value 10.
\<close>

definition acc_row :: "pystr \<Rightarrow> pystr \<Rightarrow> pystr \<Rightarrow> pystr \<Rightarrow> pystr \<Rightarrow> row" where
  "acc_row qty part price val link =
     (\<lambda>c. None)(asc ''No.'' := Some (asc ''1''), asc ''Quantity'' := Some qty,
       asc ''Manufacturer Part'' := Some part, asc ''Price'' := Some price,
       asc ''Value'' := Some val, col_taobao := Some link)"

definition acc_file_a :: source_file where
  "acc_file_a =
     \<lparr>file_name = asc ''ModAcc_A-V1.0.xlsx'',
      content = Some \<lparr>columns = core_columns accessory_pipeline,
                      rows = [acc_row (asc ''1'') (asc ''Cable'') (asc ''10'') (asc ''10'')
                                (asc ''https://a'')]\<rparr>\<rparr>"

definition acc_file_b :: source_file where
  "acc_file_b =
     \<lparr>file_name = asc ''ModAcc_B-V1.0.xlsx'',
      content = Some \<lparr>columns = core_columns accessory_pipeline,
                      rows = [acc_row (asc ''2'') (asc ''Screw'') (asc ''5'') (asc ''10'')
                                (asc ''https://b'')]\<rparr>\<rparr>"

text \<open>The table that the accessory tool builds from the two files.\<close>

definition acc_table :: "out_row list" where
  "acc_table =
     [[(col_module, Txt (Some (asc ''A''))), (asc ''No.'', Txt (Some (asc ''1''))),
       (asc ''Quantity'', Num 1), (asc ''Manufacturer Part'', Txt (Some (asc ''Cable''))),
       (asc ''Price'', Num 10), (asc ''Value'', Num 10),
       (col_taobao, Txt (Some (asc ''https://a''))), (col_order, Txt None),
       (col_min_order, Txt None)],
      [(col_module, Txt (Some (asc ''B''))), (asc ''No.'', Txt (Some (asc ''1''))),
       (asc ''Quantity'', Num 2), (asc ''Manufacturer Part'', Txt (Some (asc ''Screw''))),
       (asc ''Price'', Num 5), (asc ''Value'', Num 10),
       (col_taobao, Txt (Some (asc ''https://b''))), (col_order, Txt None),
       (col_min_order, Txt None)]]"

text \<open>
  A BOM file that lacks mandatory columns: it has a designator column and a value
  column (with spaces around the header) only.
\<close>

definition bom_bad_df :: dataframe where
  "bom_bad_df =
     \<lparr>columns = [asc ''Designator'', asc '' Value ''],
      rows = [(\<lambda>c. None)(asc ''Designator'' := Some (asc ''R1''), asc '' Value '' := Some (asc ''3''))]\<rparr>"

definition bom_bad_file :: source_file where
  "bom_bad_file = \<lparr>file_name = asc ''BOM_Sensor-v1.0.xlsx'', content = Some bom_bad_df\<rparr>"

text \<open>A BOM file with all mandatory columns and one self-purchase row, and its table.\<close>

definition bom_good_file :: source_file where
  "bom_good_file =
     \<lparr>file_name = asc ''BOM_Power-v2.0.xlsx'',
      content = Some \<lparr>columns = core_columns bom_pipeline,
                      rows = [(\<lambda>c. None)(asc ''Manufacturer Part'' := Some (asc ''LM2596''),
                                asc ''Quantity'' := Some (asc ''1''),
                                asc ''Designator'' := Some (asc ''U1''),
                                asc ''Supplier Part'' := Some (asc ''SP-1''),
                                asc ''LCSC Price'' := Some (asc ''3''),
                                asc ''Value'' := Some (asc ''3''),
                                col_taobao := Some (asc ''https://t''))]\<rparr>\<rparr>"

definition bom_good_table :: "out_row list" where
  "bom_good_table =
     [[(col_module, Txt (Some (asc ''Power''))),
       (asc ''Manufacturer Part'', Txt (Some (asc ''LM2596''))), (asc ''Quantity'', Num 1),
       (asc ''Designator'', Txt (Some (asc ''U1''))),
       (asc ''Supplier Part'', Txt (Some (asc ''SP-1''))), (asc ''LCSC Price'', Num 3),
       (asc ''Value'', Num 3), (col_taobao, Txt (Some (asc ''https://t''))),
       (col_order, Txt None), (col_min_order, Txt None)]]"

text \<open>
  The complete BOM file with one more column, whose header \<open>Value\<close> with a leading space
  collides with the numeric column \<open>Value\<close> once stripped.
\<close>

definition bom_collide_file :: source_file where
  "bom_collide_file =
     \<lparr>file_name = asc ''BOM_Motor-v1.0.xlsx'',
      content = Some \<lparr>columns = core_columns bom_pipeline @ [asc '' Value''],
                      rows = [(\<lambda>c. None)(asc ''Manufacturer Part'' := Some (asc ''LM2596''),
                                asc ''Quantity'' := Some (asc ''1''),
                                asc ''Value'' := Some (asc ''3''),
                                asc '' Value'' := Some (asc ''4''),
                                col_taobao := Some (asc ''https://t''))]\<rparr>\<rparr>"

section \<open>Properties\<close>

subsection \<open>Strings\<close>

lemma py_in_sublist: "py_in sub s = sublist sub s"
  by (induction s) (simp_all add: sublist_Cons_right)

subsection \<open>Column resolution\<close>

lemma scan_columns_find:
  "scan_columns lower tg cols = find (\<lambda>c. sublist tg (lower c)) cols"
  by (induction cols) (simp_all add: py_in_sublist)

lemma scan_columns_None:
  "scan_columns lower tg cols = None \<longleftrightarrow> (\<forall>c\<in>set cols. \<not> sublist tg (lower c))"
  by (auto simp: scan_columns_find find_None_iff)

lemma match_column_name_find:
  "match_column_name lower cols targets =
     (case find (\<lambda>t. \<exists>c\<in>set cols. sublist (lower t) (lower c)) targets of
        None \<Rightarrow> None
      | Some t \<Rightarrow> find (\<lambda>c. sublist (lower t) (lower c)) cols)"
proof (induction targets)
  case Nil
  show ?case by simp
next
  case (Cons t ts)
  show ?case
  proof (cases "\<exists>c\<in>set cols. sublist (lower t) (lower c)")
    case True
    then obtain c where "find (\<lambda>c. sublist (lower t) (lower c)) cols = Some c"
      by (metis find_None_iff not_Some_eq)
    with True show ?thesis by (simp add: scan_columns_find)
  next
    case False
    then have "find (\<lambda>c. sublist (lower t) (lower c)) cols = None"
      by (simp add: find_None_iff)
    with False Cons show ?thesis by (simp add: scan_columns_find)
  qed
qed

lemma match_column_name_None:
  "match_column_name lower cols targets = None \<longleftrightarrow>
     (\<forall>t\<in>set targets. \<forall>c\<in>set cols. \<not> sublist (lower t) (lower c))"
proof (induction targets)
  case Nil
  show ?case by simp
next
  case (Cons t ts)
  have "scan_columns lower (lower t) cols = None \<longleftrightarrow>
          (\<forall>c\<in>set cols. \<not> sublist (lower t) (lower c))"
    by (rule scan_columns_None)
  with Cons show ?case by (cases "scan_columns lower (lower t) cols") auto
qed

text \<open>
  C7. The column resolver returns the first header that contains a variant as a
  substring after lower-casing both, the variants being tried in their listed order and,
  for each variant, the headers in column order: the result is the first header (in
  column order) matching the first variant (in list order) that any header matches. The
  field is unresolved exactly when no header contains any variant. The result is a
  function of the headers and the variant list alone.
\<close>

theorem match_column_name_first_match:
  "match_column_name lower df_columns target_names =
     (case find (\<lambda>t. \<exists>c\<in>set df_columns. sublist (lower t) (lower c)) target_names of
        None \<Rightarrow> None
      | Some t \<Rightarrow> find (\<lambda>c. sublist (lower t) (lower c)) df_columns) \<and>
   (match_column_name lower df_columns target_names = None \<longleftrightarrow>
      (\<forall>t\<in>set target_names. \<forall>c\<in>set df_columns. \<not> sublist (lower t) (lower c)))"
  using match_column_name_find [of lower df_columns target_names]
    match_column_name_None [of lower df_columns target_names]
  by (rule conjI)

text \<open>
  An instance: the variant \<open>supplier p/n\<close> is listed first, so the second header wins
  although the first header contains the second variant.
\<close>

theorem match_column_name_first_match_witness:
  "match_column_name ascii_lower [asc ''Supplier Part No'', asc ''LCSC Supplier P/N'']
     [asc ''supplier p/n'', asc ''supplier part''] = Some (asc ''LCSC Supplier P/N'') \<and>
   (case find (\<lambda>t. \<exists>c\<in>set [asc ''Supplier Part No'', asc ''LCSC Supplier P/N''].
                  sublist (ascii_lower t) (ascii_lower c))
           [asc ''supplier p/n'', asc ''supplier part''] of
      None \<Rightarrow> None
    | Some t \<Rightarrow> find (\<lambda>c. sublist (ascii_lower t) (ascii_lower c))
                 [asc ''Supplier Part No'', asc ''LCSC Supplier P/N'']) =
     Some (asc ''LCSC Supplier P/N'')"
proof -
  have run: "match_column_name ascii_lower [asc ''Supplier Part No'', asc ''LCSC Supplier P/N'']
     [asc ''supplier p/n'', asc ''supplier part''] = Some (asc ''LCSC Supplier P/N'')"
    by (simp add: asc_def ascii_lower_def ascii_lower_cp_def)
  have spec: "(case find (\<lambda>t. \<exists>c\<in>set [asc ''Supplier Part No'', asc ''LCSC Supplier P/N''].
                  sublist (ascii_lower t) (ascii_lower c))
           [asc ''supplier p/n'', asc ''supplier part''] of
      None \<Rightarrow> None
    | Some t \<Rightarrow> find (\<lambda>c. sublist (ascii_lower t) (ascii_lower c))
                 [asc ''Supplier Part No'', asc ''LCSC Supplier P/N'']) =
     match_column_name ascii_lower [asc ''Supplier Part No'', asc ''LCSC Supplier P/N'']
       [asc ''supplier p/n'', asc ''supplier part'']"
    using match_column_name_first_match
      [of ascii_lower "[asc ''Supplier Part No'', asc ''LCSC Supplier P/N'']"
          "[asc ''supplier p/n'', asc ''supplier part'']"]
    by (simp only:)
  show ?thesis using run spec by (simp only:)
qed

subsection \<open>Deduplication\<close>

lemma drop_duplicates_first_snoc:
  "drop_duplicates_first key seen (xs @ [x]) =
     drop_duplicates_first key seen xs @
       (if key x \<in> set seen \<union> key ` set xs then [] else [x])"
  by (induction xs arbitrary: seen) auto

lemma nths_cong_below:
  "(\<And>i. i < length xs \<Longrightarrow> i \<in> A \<longleftrightarrow> i \<in> B) \<Longrightarrow> nths xs A = nths xs B"
  unfolding nths_def
  by (rule arg_cong [where f = "map fst"], rule filter_cong) (auto simp: in_set_zip)

lemma drop_duplicates_first_nths:
  "drop_duplicates_first key seen xs =
     nths xs {i. key (xs ! i) \<notin> set seen \<and> (\<forall>j<i. key (xs ! j) \<noteq> key (xs ! i))}"
proof (induction xs rule: rev_induct)
  case Nil
  show ?case by simp
next
  case (snoc x xs)
  have a: "nths xs {i. key ((xs @ [x]) ! i) \<notin> set seen \<and> (\<forall>j<i. key ((xs @ [x]) ! j) \<noteq> key ((xs @ [x]) ! i))}
         = nths xs {i. key (xs ! i) \<notin> set seen \<and> (\<forall>j<i. key (xs ! j) \<noteq> key (xs ! i))}"
    by (rule nths_cong_below) (auto simp: nth_append)
  have b: "(key x \<notin> set seen \<and> (\<forall>j<length xs. key ((xs @ [x]) ! j) \<noteq> key x))
           \<longleftrightarrow> key x \<notin> set seen \<union> key ` set xs"
  proof -
    have "(\<forall>j<length xs. key (xs ! j) \<noteq> key x) \<longleftrightarrow> key x \<notin> key ` set xs"
      by (metis image_iff in_set_conv_nth)
    then show ?thesis by (simp add: nth_append)
  qed
  show ?case
    by (simp add: drop_duplicates_first_snoc nths_append a b snoc.IH nths_singleton del: Un_iff)
qed

lemma drop_duplicates_first_fresh: "r \<in> set (drop_duplicates_first key seen xs) \<Longrightarrow> key r \<notin> set seen"
proof (induction xs arbitrary: seen)
  case Nil then show ?case by simp
next
  case (Cons x xs)
  show ?case
  proof (cases "key x \<in> set seen")
    case True
    with Cons.prems have "r \<in> set (drop_duplicates_first key seen xs)" by simp
    then show ?thesis by (rule Cons.IH)
  next
    case False
    with Cons.prems have "r = x \<or> r \<in> set (drop_duplicates_first key (key x # seen) xs)" by simp
    then show ?thesis
    proof
      assume "r = x" with False show ?thesis by simp
    next
      assume "r \<in> set (drop_duplicates_first key (key x # seen) xs)"
      then have "key r \<notin> set (key x # seen)" by (rule Cons.IH)
      then show ?thesis by simp
    qed
  qed
qed

lemma drop_duplicates_first_keys: "key ` set (drop_duplicates_first key seen xs) \<inter> set seen = {}"
  using drop_duplicates_first_fresh [of _ key seen xs] by auto

lemma drop_duplicates_first_subset: "set (drop_duplicates_first key seen xs) \<subseteq> set xs"
  by (induction xs arbitrary: seen) auto

lemma drop_duplicates_first_distinct: "distinct (map key (drop_duplicates_first key seen xs))"
proof (induction xs arbitrary: seen)
  case Nil show ?case by simp
next
  case (Cons x xs)
  have "key x \<notin> key ` set (drop_duplicates_first key (key x # seen) xs)"
  proof
    assume "key x \<in> key ` set (drop_duplicates_first key (key x # seen) xs)"
    then obtain r where r: "r \<in> set (drop_duplicates_first key (key x # seen) xs)"
      and k: "key x = key r" by auto
    from r have "key r \<notin> set (key x # seen)" by (rule drop_duplicates_first_fresh)
    with k show False by simp
  qed
  with Cons.IH show ?case by simp
qed

lemma drop_duplicates_first_id:
  "distinct (map key xs) \<Longrightarrow> key ` set xs \<inter> set seen = {} \<Longrightarrow>
     drop_duplicates_first key seen xs = xs"
  by (induction xs arbitrary: seen) auto

lemma drop_duplicates_first_idem:
  "drop_duplicates_first key seen (drop_duplicates_first key seen xs) =
     drop_duplicates_first key seen xs"
  by (rule drop_duplicates_first_id) (simp_all add: drop_duplicates_first_distinct drop_duplicates_first_keys)

lemma drop_duplicates_first_filter_key:
  "filter (\<lambda>r. key r = k) (drop_duplicates_first key seen xs) =
     (if k \<in> set seen then []
      else case find (\<lambda>r. key r = k) xs of None \<Rightarrow> [] | Some r \<Rightarrow> [r])"
proof (induction xs arbitrary: seen)
  case Nil show ?case by simp
next
  case (Cons x xs)
  show ?case by (auto simp: Cons.IH)
qed

text \<open>
  C5. The deduplicator outputs exactly the records whose key has not occurred earlier
  in the sequence, in their order and unchanged: the result is the subsequence of the
  input at the positions \<open>i\<close> such that no position \<open>j < i\<close> holds the same key. So
  the first record of each key stays and every later one goes. The key is the supplier
  part in \<open>deduplicate_components\<close>, and the columns \<open>unique_type_cols\<close> in the
  \<open>drop_duplicates\<close> call that builds the type table of the BOM tool (\<open>cfg\<close> is its
  configuration; the call of the accessory tool is the same with its own configuration).
\<close>

theorem deduplicate_components_first_occurrences:
  "deduplicate_components xs =
     nths xs {i. \<forall>j<i. supplier_part (xs ! j) \<noteq> supplier_part (xs ! i)} \<and>
   df_type_unique cfg df =
     nths (map (select_columns (core_columns cfg)) df)
       {i. \<forall>j<i. type_key cfg (map (select_columns (core_columns cfg)) df ! j) \<noteq>
                  type_key cfg (map (select_columns (core_columns cfg)) df ! i)}"
  by (simp add: deduplicate_components_def df_type_unique_def drop_duplicates_first_nths)

text \<open>
  An instance, in both orders: of the two records with supplier part C25804 the one that
  comes first is kept, with its own module, designator and manufacturer.
\<close>

theorem deduplicate_components_first_occurrences_witness:
  "deduplicate_components [rec_a, rec_b, rec_c] = [rec_a, rec_b] \<and>
   deduplicate_components [rec_c, rec_b, rec_a] = [rec_c, rec_b] \<and>
   nths [rec_a, rec_b, rec_c]
     {i. \<forall>j<i. supplier_part ([rec_a, rec_b, rec_c] ! j) \<noteq>
                supplier_part ([rec_a, rec_b, rec_c] ! i)} = [rec_a, rec_b]"
proof -
  have run: "deduplicate_components [rec_a, rec_b, rec_c] = [rec_a, rec_b]"
    by (simp add: deduplicate_components_def rec_a_def rec_b_def rec_c_def rec_m1_def
          rec_m2_def asc_def)
  have run': "deduplicate_components [rec_c, rec_b, rec_a] = [rec_c, rec_b]"
    by (simp add: deduplicate_components_def rec_a_def rec_b_def rec_c_def rec_m1_def
          rec_m2_def asc_def)
  have spec: "nths [rec_a, rec_b, rec_c]
     {i. \<forall>j<i. supplier_part ([rec_a, rec_b, rec_c] ! j) \<noteq>
                supplier_part ([rec_a, rec_b, rec_c] ! i)} =
     deduplicate_components [rec_a, rec_b, rec_c]"
    by (rule deduplicate_components_first_occurrences [THEN conjunct1, symmetric])
  show ?thesis using run run' spec by (simp only:)
qed

text \<open>
  C8. The deduplicator is idempotent: deduplicating its own output changes nothing,
  in \<open>deduplicate_components\<close> and in the \<open>drop_duplicates\<close> call of the type table.
\<close>

theorem deduplicate_components_idempotent:
  "deduplicate_components (deduplicate_components s) = deduplicate_components s \<and>
   drop_duplicates_first (type_key cfg) [] (df_type_unique cfg df) = df_type_unique cfg df"
  by (simp add: deduplicate_components_def df_type_unique_def drop_duplicates_first_idem)

theorem deduplicate_components_idempotent_witness:
  "deduplicate_components (deduplicate_components [rec_a, rec_b, rec_c]) = [rec_a, rec_b]"
proof -
  have run: "deduplicate_components [rec_a, rec_b, rec_c] = [rec_a, rec_b]"
    by (simp add: deduplicate_components_def rec_a_def rec_b_def rec_c_def rec_m1_def
          rec_m2_def asc_def)
  show ?thesis
    using deduplicate_components_idempotent [THEN conjunct1, of "[rec_a, rec_b, rec_c]"] run
    by (simp only:)
qed

lemma length_filter_disj:
  "length (filter (\<lambda>x. P x \<or> Q x) xs) \<le> length (filter P xs) + length (filter Q xs)"
  by (induction xs) auto

lemma isna_iff: "isna e \<longleftrightarrow> e = Nan \<or> e = Py_None"
  by (cases e) simp_all

text \<open>
  C9, as the code has it. A missing supplier part is held as \<open>NaN\<close> or as \<open>None\<close>. All
  records with \<open>NaN\<close> carry one key and all records with \<open>None\<close> carry one key, but the
  two keys differ. Of the records of the input whose supplier part is \<open>NaN\<close> the output
  of the deduplicator holds exactly the first one (none when the input has none), and
  likewise for \<open>None\<close>, whatever the other fields are; so at most two records without
  supplier part survive, one of each form.
\<close>

theorem deduplicate_components_missing_supplier_part:
  "filter (\<lambda>r. supplier_part r = Nan) (deduplicate_components xs) =
     (case find (\<lambda>r. supplier_part r = Nan) xs of None \<Rightarrow> [] | Some r \<Rightarrow> [r]) \<and>
   filter (\<lambda>r. supplier_part r = Py_None) (deduplicate_components xs) =
     (case find (\<lambda>r. supplier_part r = Py_None) xs of None \<Rightarrow> [] | Some r \<Rightarrow> [r]) \<and>
   length (filter (\<lambda>r. isna (supplier_part r)) (deduplicate_components xs)) \<le> 2"
proof -
  have nan: "filter (\<lambda>r. supplier_part r = Nan) (deduplicate_components xs) =
     (case find (\<lambda>r. supplier_part r = Nan) xs of None \<Rightarrow> [] | Some r \<Rightarrow> [r])"
    by (simp add: deduplicate_components_def drop_duplicates_first_filter_key)
  have none: "filter (\<lambda>r. supplier_part r = Py_None) (deduplicate_components xs) =
     (case find (\<lambda>r. supplier_part r = Py_None) xs of None \<Rightarrow> [] | Some r \<Rightarrow> [r])"
    by (simp add: deduplicate_components_def drop_duplicates_first_filter_key)
  have "length (filter (\<lambda>r. supplier_part r = Nan) (deduplicate_components xs)) \<le> 1"
    unfolding nan by (simp split: option.split)
  moreover have "length (filter (\<lambda>r. supplier_part r = Py_None) (deduplicate_components xs)) \<le> 1"
    unfolding none by (simp split: option.split)
  moreover have "length (filter (\<lambda>r. isna (supplier_part r)) (deduplicate_components xs)) \<le>
      length (filter (\<lambda>r. supplier_part r = Nan) (deduplicate_components xs)) +
      length (filter (\<lambda>r. supplier_part r = Py_None) (deduplicate_components xs))"
    unfolding isna_iff by (rule length_filter_disj)
  ultimately have "length (filter (\<lambda>r. isna (supplier_part r)) (deduplicate_components xs)) \<le> 2"
    by linarith
  with nan none show ?thesis by (simp only: simp_thms)
qed

text \<open>
  An instance: of the two records with \<open>NaN\<close> the first stays and the later one goes; the
  record with \<open>None\<close> between them stays as well.
\<close>

theorem deduplicate_components_missing_supplier_part_witness:
  "deduplicate_components [rec_a, rec_m1, rec_b, rec_m2, rec_m3] =
     [rec_a, rec_m1, rec_b, rec_m2] \<and>
   filter (\<lambda>r. supplier_part r = Nan)
     (deduplicate_components [rec_a, rec_m1, rec_b, rec_m2, rec_m3]) = [rec_m1] \<and>
   filter (\<lambda>r. supplier_part r = Py_None)
     (deduplicate_components [rec_a, rec_m1, rec_b, rec_m2, rec_m3]) = [rec_m2]"
proof -
  note recs = rec_a_def rec_b_def rec_m1_def rec_m2_def rec_m3_def asc_def
  have run: "deduplicate_components [rec_a, rec_m1, rec_b, rec_m2, rec_m3] =
     [rec_a, rec_m1, rec_b, rec_m2]"
    by (simp add: deduplicate_components_def recs)
  have first_nan: "(case find (\<lambda>r. supplier_part r = Nan) [rec_a, rec_m1, rec_b, rec_m2, rec_m3] of
                  None \<Rightarrow> [] | Some r \<Rightarrow> [r]) = [rec_m1]"
    by (simp add: recs)
  have first_none: "(case find (\<lambda>r. supplier_part r = Py_None)
                       [rec_a, rec_m1, rec_b, rec_m2, rec_m3] of
                  None \<Rightarrow> [] | Some r \<Rightarrow> [r]) = [rec_m2]"
    by (simp add: recs)
  note inst = deduplicate_components_missing_supplier_part
    [of "[rec_a, rec_m1, rec_b, rec_m2, rec_m3]"]
  from inst first_nan have a: "filter (\<lambda>r. supplier_part r = Nan)
     (deduplicate_components [rec_a, rec_m1, rec_b, rec_m2, rec_m3]) = [rec_m1]"
    by (simp only:)
  from inst first_none have b: "filter (\<lambda>r. supplier_part r = Py_None)
     (deduplicate_components [rec_a, rec_m1, rec_b, rec_m2, rec_m3]) = [rec_m2]"
    by (simp only:)
  from run a b show ?thesis by (simp only: simp_thms)
qed

text \<open>
  Two records without supplier part, one with \<open>NaN\<close> and one with \<open>None\<close>: both survive,
  so more than one record without supplier part can come out of the deduplicator.
\<close>

theorem deduplicate_components_nan_none_counterexample:
  "isna (supplier_part rec_m1) \<and> isna (supplier_part rec_m2) \<and>
   deduplicate_components [rec_m1, rec_m2] = [rec_m1, rec_m2]"
  by (simp add: deduplicate_components_def rec_m1_def rec_m2_def)

subsection \<open>Regular and special components\<close>

lemma is_special_iff:
  "is_special r \<longleftrightarrow>
     isna (designator r) \<or> isna (supplier_part r) \<or>
     component_type r = Text (category_label Other)"
  by (simp add: is_special_def)

text \<open>
  C10. The split is a partition of its input: the special table holds, in order, the
  records whose designator is missing (\<open>isna\<close>), or whose supplier part is missing, or
  whose type is the catch-all \<open>Other\<close>; the regular table holds all the others; each record goes to
  exactly one table, so the two tables have together as many rows as the input.
\<close>

theorem split_regular_special_partition:
  "split_regular_special xs =
     (map regular_final
        (filter (\<lambda>r. \<not> (isna (designator r) \<or> isna (supplier_part r) \<or>
                         component_type r = Text (category_label Other))) xs),
      map special_final
        (filter (\<lambda>r. isna (designator r) \<or> isna (supplier_part r) \<or>
                      component_type r = Text (category_label Other)) xs)) \<and>
   length (fst (split_regular_special xs)) + length (snd (split_regular_special xs)) =
     length xs"
proof -
  have "length (filter (\<lambda>r. \<not> is_special r) xs) + length (filter is_special xs) = length xs"
    using sum_length_filter_compl [of is_special xs] by simp
  then show ?thesis
    by (simp add: split_regular_special_def is_special_iff [abs_def])
qed

theorem split_regular_special_partition_witness:
  "split_regular_special [rec_a, rec_m1, rec_b] =
     ([regular_final rec_a, regular_final rec_b], [special_final rec_m1]) \<and>
   length (fst (split_regular_special [rec_a, rec_m1, rec_b])) +
     length (snd (split_regular_special [rec_a, rec_m1, rec_b])) = 3"
proof -
  have run: "split_regular_special [rec_a, rec_m1, rec_b] =
     ([regular_final rec_a, regular_final rec_b], [special_final rec_m1])"
    by (simp add: split_regular_special_def is_special_def rec_a_def rec_b_def rec_m1_def asc_def)
  have "length (fst (split_regular_special [rec_a, rec_m1, rec_b])) +
     length (snd (split_regular_special [rec_a, rec_m1, rec_b])) = length [rec_a, rec_m1, rec_b]"
    using split_regular_special_partition [of "[rec_a, rec_m1, rec_b]"] by (rule conjunct2)
  then have "length (fst (split_regular_special [rec_a, rec_m1, rec_b])) +
     length (snd (split_regular_special [rec_a, rec_m1, rec_b])) = 3" by simp
  with run show ?thesis by (rule conjI)
qed

subsection \<open>Component categories\<close>

lemma classify_first_match:
  "classify_component upper (Some d) = first_match (upper (py_strip d))"
  by (simp add: classify_component_def first_match_def taxonomy_def startswith_def
        py_in_sublist Let_def)

lemma first_match_Nil: "first_match [] = Other"
  by (simp add: first_match_def taxonomy_def asc_def)

text \<open>
  C3, as the code has it. The classifier is total and returns one category. A missing
  designator (\<open>NaN\<close>) gives \<open>Unknown\<close>. Any other designator is trimmed and upper-cased
  and then classified by the first rule of the ordered table that applies: prefix R,
  prefix C, prefix LED, prefix Q, prefix U, prefix SW, then containing J, CN or USB; it
  is \<open>Other\<close> when no rule applies, which includes the designator that is empty after
  trimming.
\<close>

theorem classify_component_rules:
  "classify_component upper None = Unknown \<and>
   classify_component upper (Some d) = first_match (upper (py_strip d)) \<and>
   first_match [] = Other"
proof -
  have "classify_component upper None = Unknown" by (simp add: classify_component_def)
  then show ?thesis by (simp add: classify_first_match first_match_Nil)
qed

text \<open>
  The examples of the specification, and the rule order at work: \<open>CN1\<close> is a capacitor
  because prefix C comes before the connector rule.
\<close>

theorem classify_component_rules_witness:
  "classify_component ascii_upper (Some (asc ''R101'')) = Resistor \<and>
   first_match (ascii_upper (py_strip (asc ''R101''))) = Resistor \<and>
   classify_component ascii_upper (Some (asc ''J3'')) = Connector \<and>
   classify_component ascii_upper (Some (asc ''X9'')) = Other \<and>
   classify_component ascii_upper (Some (asc '' led2'')) = Diode \<and>
   classify_component ascii_upper (Some (asc ''CN1'')) = Capacitor \<and>
   classify_component ascii_upper None = Unknown"
proof -
  have run: "classify_component ascii_upper (Some (asc ''R101'')) = Resistor"
    "classify_component ascii_upper (Some (asc ''J3'')) = Connector"
    "classify_component ascii_upper (Some (asc ''X9'')) = Other"
    "classify_component ascii_upper (Some (asc '' led2'')) = Diode"
    "classify_component ascii_upper (Some (asc ''CN1'')) = Capacitor"
    by (simp_all add: classify_component_def py_strip_def py_isspace_def ascii_upper_def
          ascii_upper_cp_def startswith_def asc_def)
  note rules = classify_component_rules [of ascii_upper "asc ''R101''"]
  from rules have none: "classify_component ascii_upper None = Unknown" by (rule conjunct1)
  from rules have "first_match (ascii_upper (py_strip (asc ''R101''))) =
      classify_component ascii_upper (Some (asc ''R101''))"
    by (simp only:)
  with run none show ?thesis by (simp only:)
qed

text \<open>
  Rule 1 of the specification sends the empty designator to \<open>Unknown\<close>; the code sends
  it to \<open>Other\<close>, and likewise a designator of white space only.
\<close>

theorem classify_component_empty_counterexample:
  "classify_component ascii_upper (Some []) \<noteq> Unknown"
  by (simp add: classify_component_def py_strip_def ascii_upper_def startswith_def asc_def)

subsection \<open>Purchase classification\<close>

lemma py_strip_Nil_iff: "py_strip s = [] \<longleftrightarrow> list_all py_isspace s"
proof
  assume a: "py_strip s = []"
  show "list_all py_isspace s"
  proof (rule ccontr)
    assume "\<not> list_all py_isspace s"
    then have ne: "dropWhile py_isspace s \<noteq> []"
      by (simp add: dropWhile_eq_Nil_conv list_all_iff)
    then have "\<not> py_isspace (hd (dropWhile py_isspace s))" by (rule hd_dropWhile)
    moreover from ne have "hd (dropWhile py_isspace s) \<in> set (rev (dropWhile py_isspace s))"
      by simp
    ultimately have "dropWhile py_isspace (rev (dropWhile py_isspace s)) \<noteq> []"
      unfolding dropWhile_eq_Nil_conv by blast
    with a show False by (simp add: py_strip_def)
  qed
next
  assume "list_all py_isspace s"
  then have e: "dropWhile py_isspace s = []" by (simp add: list_all_iff)
  show "py_strip s = []" unfolding py_strip_def e by simp
qed

lemma py_strip_last: "py_strip s \<noteq> [] \<Longrightarrow> \<not> py_isspace (last (py_strip s))"
proof -
  assume a: "py_strip s \<noteq> []"
  let ?t = "dropWhile py_isspace (rev (dropWhile py_isspace s))"
  from a have ne: "?t \<noteq> []" by (simp add: py_strip_def)
  then have "\<not> py_isspace (hd ?t)" by (rule hd_dropWhile)
  moreover from ne have "last (rev ?t) = hd ?t" by (simp add: last_rev)
  ultimately show ?thesis by (simp add: py_strip_def)
qed

lemma removed_are_space: "py_isspace 12288" "py_isspace 9" "py_isspace 10" "py_isspace 13" "py_isspace 32"
  by (simp_all add: py_isspace_def)

lemma clean_invalid_content_None_iff:
  "clean_invalid_content c = None \<longleftrightarrow> blank_cell c"
proof (cases c)
  case None
  then show ?thesis by (simp add: clean_invalid_content_def blank_cell_def)
next
  case (Some s)
  show ?thesis
  proof (cases "py_strip s = []")
    case True
    with Some show ?thesis
      by (simp add: clean_invalid_content_def blank_cell_def py_remove_def)
  next
    case False
    then have ns: "\<not> py_isspace (last (py_strip s))" by (rule py_strip_last)
    from False have mem: "last (py_strip s) \<in> set (py_strip s)" by simp
    from ns removed_are_space have "last (py_strip s) \<notin> {12288, 9, 10, 13}" by auto
    with mem have "last (py_strip s) \<in>
        set (py_remove 13 (py_remove 10 (py_remove 9 (py_remove 12288 (py_strip s)))))"
      by (simp add: py_remove_def)
    then have "py_remove 13 (py_remove 10 (py_remove 9 (py_remove 12288 (py_strip s)))) \<noteq> []"
      by auto
    with Some False show ?thesis
      by (simp add: clean_invalid_content_def blank_cell_def Let_def)
  qed
qed

lemma self_purchase_mask_iff:
  "self_purchase_mask cols r \<longleftrightarrow> \<not> list_all (\<lambda>col. blank_cell (r col)) cols"
  by (induction cols)
     (auto simp: self_purchase_mask_def blank_cell_def split: option.splits)


lemma match_column_name_SomeD:
  "match_column_name lower cols targets = Some c \<Longrightarrow>
     c \<in> set cols \<and> (\<exists>t\<in>set targets. py_in (lower t) (lower c))"
proof (induction targets)
  case Nil then show ?case by simp
next
  case (Cons t ts)
  show ?case
  proof (cases "scan_columns lower (lower t) cols")
    case None
    with Cons show ?thesis by simp
  next
    case (Some col)
    with Cons.prems have "col = c" by simp
    with Some have "find (\<lambda>c. sublist (lower t) (lower c)) cols = Some c"
      by (simp add: scan_columns_find)
    then have "c \<in> set cols \<and> sublist (lower t) (lower c)"
      by (auto simp: find_Some_iff)
    then show ?thesis by (simp add: py_in_sublist)
  qed
qed

lemma keeps_names_no_clash:
  assumes k: "keeps_names lower"
  shows "match_column_name lower cols taobao_link_names \<noteq> Some []"
    and "match_column_name lower cols order_config_names \<noteq> Some []"
    and "match_column_name lower cols min_order_names \<noteq> Some []"
    and "match_column_name lower cols order_config_names \<noteq> Some (asc ''clean_taobao'')"
    and "match_column_name lower cols min_order_names \<noteq> Some (asc ''clean_taobao'')"
    and "match_column_name lower cols min_order_names \<noteq> Some (asc ''clean_order'')"
proof -
  from k have l0: "lower [] = []" and l1: "lower (asc ''clean_taobao'') = asc ''clean_taobao''"
    and l2: "lower (asc ''clean_order'') = asc ''clean_order''"
    and t: "\<forall>t\<in>set taobao_link_names. lower t = t"
    and o: "\<forall>t\<in>set order_config_names. lower t = t"
    and m: "\<forall>t\<in>set min_order_names. lower t = t"
    by (simp_all add: keeps_names_def list_all_iff)
  have nt: "\<forall>t\<in>set taobao_link_names. \<not> py_in t []"
    by (simp add: taobao_link_names_def asc_def)
  have no: "\<forall>t\<in>set order_config_names. \<not> py_in t [] \<and> \<not> py_in t (asc ''clean_taobao'')"
    by (simp add: order_config_names_def asc_def)
  have nm: "\<forall>t\<in>set min_order_names. \<not> py_in t [] \<and> \<not> py_in t (asc ''clean_taobao'')
              \<and> \<not> py_in t (asc ''clean_order'')"
    by (simp add: min_order_names_def asc_def)
  show "match_column_name lower cols taobao_link_names \<noteq> Some []"
    using match_column_name_SomeD [of lower cols taobao_link_names "[]"] t nt l0 by auto
  show "match_column_name lower cols order_config_names \<noteq> Some []"
    using match_column_name_SomeD [of lower cols order_config_names "[]"] o no l0 by auto
  show "match_column_name lower cols min_order_names \<noteq> Some []"
    using match_column_name_SomeD [of lower cols min_order_names "[]"] m nm l0 by auto
  show "match_column_name lower cols order_config_names \<noteq> Some (asc ''clean_taobao'')"
    using match_column_name_SomeD [of lower cols order_config_names "asc ''clean_taobao''"] o no l1
    by auto
  show "match_column_name lower cols min_order_names \<noteq> Some (asc ''clean_taobao'')"
    using match_column_name_SomeD [of lower cols min_order_names "asc ''clean_taobao''"] m nm l1
    by auto
  show "match_column_name lower cols min_order_names \<noteq> Some (asc ''clean_order'')"
    using match_column_name_SomeD [of lower cols min_order_names "asc ''clean_order''"] m nm l2
    by auto
qed

lemma clean_column_None_iff:
  "col \<noteq> Some [] \<Longrightarrow> clean_column col r = None \<longleftrightarrow> indicator_blank col r"
  by (cases col) (simp_all add: clean_column_def indicator_blank_def clean_invalid_content_None_iff)

lemma clean_names_distinct:
  "asc ''clean_taobao'' \<noteq> asc ''clean_order''" "asc ''clean_taobao'' \<noteq> asc ''clean_min_order''"
  "asc ''clean_order'' \<noteq> asc ''clean_min_order''"
  by (simp_all add: asc_def)

lemma clean_column_upd:
  "col \<noteq> Some n \<Longrightarrow> clean_column col (r(n := v)) = clean_column col r"
  by (cases col) (simp_all add: clean_column_def)

lemma non_self_mask_add_clean_columns:
  assumes "tc \<noteq> Some []" "oc \<noteq> Some []" "mc \<noteq> Some []"
    "oc \<noteq> Some (asc ''clean_taobao'')" "mc \<noteq> Some (asc ''clean_taobao'')"
    "mc \<noteq> Some (asc ''clean_order'')"
  shows "non_self_mask (add_clean_columns tc oc mc r) \<longleftrightarrow>
           indicator_blank tc r \<and> indicator_blank oc r \<and> indicator_blank mc r"
  using assms clean_names_distinct
  by (simp add: non_self_mask_def add_clean_columns_def Let_def clean_column_upd
        clean_column_None_iff)

lemma judge_rows:
  assumes k: "keeps_names lower"
  shows "rows (judge_non_self_purchase lower df) =
     map (add_clean_columns (match_column_name lower (columns df) taobao_link_names)
            (match_column_name lower (columns df) order_config_names)
            (match_column_name lower (columns df) min_order_names))
       (filter (\<lambda>r. indicator_blank (match_column_name lower (columns df) taobao_link_names) r \<and>
                     indicator_blank (match_column_name lower (columns df) order_config_names) r \<and>
                     indicator_blank (match_column_name lower (columns df) min_order_names) r)
          (rows df))"
  using non_self_mask_add_clean_columns [OF keeps_names_no_clash [OF k, of "columns df"]]
  by (simp add: judge_non_self_purchase_def Let_def filter_map comp_def)

text \<open>
  C2. The purchase classifier is a total function of the row and the resolved columns.
  \<open>judge_non_self_purchase\<close> keeps a row (non-self-purchase) exactly when each of the
  three indicator fields is blank, that is, its column is unresolved, or its cell is
  missing, or its cell is empty after trimming white space; an unresolved column counts
  like a blank cell. The extraction loops of the other two tools keep a row
  (self-purchase) exactly when not all indicator cells are blank. The full-width space,
  tab, newline and carriage return are white space.
\<close>

theorem purchase_classifier_iff:
  assumes "keeps_names lower"
  shows "rows (judge_non_self_purchase lower df) =
           map (add_clean_columns (match_column_name lower (columns df) taobao_link_names)
                  (match_column_name lower (columns df) order_config_names)
                  (match_column_name lower (columns df) min_order_names))
             (filter
                (\<lambda>r. indicator_blank (match_column_name lower (columns df) taobao_link_names) r \<and>
                      indicator_blank (match_column_name lower (columns df) order_config_names) r \<and>
                      indicator_blank (match_column_name lower (columns df) min_order_names) r)
                (rows df)) \<and>
         (self_purchase_mask cols r \<longleftrightarrow> \<not> list_all (\<lambda>col. blank_cell (r col)) cols) \<and>
         indicator_blank None r \<and> blank_cell None \<and> blank_cell (Some [12288, 9, 10, 13, 32])"
proof -
  have "blank_cell (Some [12288, 9, 10, 13, 32])"
    by (simp add: blank_cell_def py_strip_def py_isspace_def)
  moreover have "blank_cell None" "indicator_blank None r"
    by (simp_all add: blank_cell_def indicator_blank_def)
  ultimately show ?thesis
    using judge_rows [OF assms, of df] self_purchase_mask_iff [of cols r] by (simp only: simp_thms)
qed

lemma keeps_names_ascii_lower: "keeps_names ascii_lower"
  by (simp add: keeps_names_def taobao_link_names_def order_config_names_def
        min_order_names_def ascii_lower_def ascii_lower_cp_def asc_def)

theorem purchase_classifier_iff_witness:
  "keeps_names ascii_lower \<and>
   map (\<lambda>r. r (asc ''Designator'')) (rows (judge_non_self_purchase ascii_lower judge_example)) =
     [Some (asc ''R1'')]"
proof -
  note inst = purchase_classifier_iff [OF keeps_names_ascii_lower, of judge_example "[]" "\<lambda>c. None"]
  from inst have e: "rows (judge_non_self_purchase ascii_lower judge_example) =
           map (add_clean_columns (match_column_name ascii_lower (columns judge_example) taobao_link_names)
                  (match_column_name ascii_lower (columns judge_example) order_config_names)
                  (match_column_name ascii_lower (columns judge_example) min_order_names))
             (filter
                (\<lambda>r. indicator_blank (match_column_name ascii_lower (columns judge_example) taobao_link_names) r \<and>
                      indicator_blank (match_column_name ascii_lower (columns judge_example) order_config_names) r \<and>
                      indicator_blank (match_column_name ascii_lower (columns judge_example) min_order_names) r)
                (rows judge_example))"
    by (rule conjunct1)
  have cols: "match_column_name ascii_lower (columns judge_example) taobao_link_names = Some col_taobao"
    "match_column_name ascii_lower (columns judge_example) order_config_names = None"
    "match_column_name ascii_lower (columns judge_example) min_order_names = Some (asc ''MOQ'')"
    by (simp_all add: judge_example_def taobao_link_names_def order_config_names_def
          min_order_names_def col_taobao_def ascii_lower_def ascii_lower_cp_def asc_def)
  have "map (\<lambda>r. r (asc ''Designator'')) (rows (judge_non_self_purchase ascii_lower judge_example)) =
     [Some (asc ''R1'')]"
    unfolding e cols
    by (simp add: judge_example_def indicator_blank_def blank_cell_def py_strip_def
          py_isspace_def add_clean_columns_def Let_def col_taobao_def asc_def)
  with keeps_names_ascii_lower show ?thesis by (rule conjI)
qed

subsection \<open>The extraction loop\<close>

lemma say_collected: "collected (say m st) = collected st"
  by (simp add: say_def)

lemma say_printed: "printed (say m st) = printed st @ [m]"
  by (simp add: say_def)

lemma process_file_missing:
  "discovered cfg (file_name f) \<Longrightarrow> content f = Some df \<Longrightarrow>
   filter (\<lambda>col. col \<notin> set (columns (strip_columns df))) (core_columns cfg) \<noteq> [] \<Longrightarrow>
     process_file cfg num st f =
       say (Skipped_Missing (file_name f)
              (filter (\<lambda>col. col \<notin> set (columns (strip_columns df))) (core_columns cfg)))
         (say (Found (file_name f)) st)"
  by (simp add: process_file_def)

lemma process_file_extracted:
  "discovered cfg (file_name f) \<Longrightarrow> content f = Some df \<Longrightarrow>
   filter (\<lambda>col. col \<notin> set (columns (strip_columns df))) (core_columns cfg) = [] \<Longrightarrow>
   \<not> list_ex (collides (strip_columns df)) (filter_columns cfg) \<Longrightarrow>
   filter (\<lambda>r. self_purchase_mask (filter_columns cfg) (strip_row (columns df) r)) (rows df) =
     kept \<Longrightarrow>
   kept \<noteq> [] \<Longrightarrow>
   \<not> list_ex (collides (strip_columns df)) (numeric_cols cfg) \<Longrightarrow>
     process_file cfg num st f =
       say (Extracted (file_name f) (length kept))
         ((say (Found (file_name f)) st)
            \<lparr>collected := collected (say (Found (file_name f)) st) @
               [map (\<lambda>r. (col_module, Txt (Some (module_name_of cfg (file_name f)))) #
                          df_calc_row cfg num (columns df) r) kept]\<rparr>)"
  by (simp add: process_file_def Let_def comp_def)

lemma process_file_numeric_collision:
  "discovered cfg (file_name f) \<Longrightarrow> content f = Some df \<Longrightarrow>
   filter (\<lambda>col. col \<notin> set (columns (strip_columns df))) (core_columns cfg) = [] \<Longrightarrow>
   \<not> list_ex (collides (strip_columns df)) (filter_columns cfg) \<Longrightarrow>
   filter (\<lambda>r. self_purchase_mask (filter_columns cfg) (strip_row (columns df) r)) (rows df)
     \<noteq> [] \<Longrightarrow>
   list_ex (collides (strip_columns df)) (numeric_cols cfg) \<Longrightarrow>
     process_file cfg num st f = say (Failed (file_name f)) (say (Found (file_name f)) st)"
  by (simp add: process_file_def Let_def)

lemma process_file_mask_collision:
  "discovered cfg (file_name f) \<Longrightarrow> content f = Some df \<Longrightarrow>
   filter (\<lambda>col. col \<notin> set (columns (strip_columns df))) (core_columns cfg) = [] \<Longrightarrow>
   list_ex (collides (strip_columns df)) (filter_columns cfg) \<Longrightarrow>
     process_file cfg num st f = say (Failed (file_name f)) (say (Found (file_name f)) st)"
  by (simp add: process_file_def Let_def)

lemma collected_process_file_extracted:
  assumes "discovered cfg (file_name f)" "content f = Some df"
    "filter (\<lambda>col. col \<notin> set (columns (strip_columns df))) (core_columns cfg) = []"
    "\<not> list_ex (collides (strip_columns df)) (filter_columns cfg)"
    "filter (\<lambda>r. self_purchase_mask (filter_columns cfg) (strip_row (columns df) r)) (rows df)
       \<noteq> []"
    "\<not> list_ex (collides (strip_columns df)) (numeric_cols cfg)"
  shows "collected (process_file cfg num st f) =
           collected st @
             [map (\<lambda>r. (col_module, Txt (Some (module_name_of cfg (file_name f)))) #
                        df_calc_row cfg num (columns df) r)
                (filter (\<lambda>r. self_purchase_mask (filter_columns cfg) (strip_row (columns df) r))
                   (rows df))]"
  by (simp add: process_file_extracted [OF assms(1,2,3,4) refl assms(5,6)] say_collected)

text \<open>
  Whatever the branch, one file adds to the state some tables and some messages that
  depend on the file alone, and every row it adds begins with the module column.
\<close>

lemma process_file_effect:
  "\<exists>tabs msgs. list_all module_shaped tabs \<and>
     (\<forall>st. collected (process_file cfg num st f) = collected st @ tabs \<and>
           printed (process_file cfg num st f) = printed st @ msgs)"
proof (cases "discovered cfg (file_name f)")
  case False
  then have "\<forall>st. collected (process_file cfg num st f) = collected st @ [] \<and>
                  printed (process_file cfg num st f) = printed st @ []"
    by (simp add: process_file_def)
  then show ?thesis by (intro exI [of _ "[]"]) simp
next
  case d: True
  show ?thesis
  proof (cases "content f")
    case None
    with d have "\<forall>st. collected (process_file cfg num st f) = collected st @ [] \<and>
                  printed (process_file cfg num st f) =
                    printed st @ [Found (file_name f), Failed (file_name f)]"
      by (simp add: process_file_def say_def)
    then show ?thesis by (intro exI [of _ "[]"] exI [of _ "[Found (file_name f), Failed (file_name f)]"]) simp
  next
    case (Some df)
    let ?missing = "filter (\<lambda>col. col \<notin> set (columns (strip_columns df))) (core_columns cfg)"
    let ?kept = "filter (\<lambda>r. self_purchase_mask (filter_columns cfg) (strip_row (columns df) r))
                   (rows df)"
    let ?tab = "map (\<lambda>r. (col_module, Txt (Some (module_name_of cfg (file_name f)))) #
                          df_calc_row cfg num (columns df) r) ?kept"
    consider (missing) "?missing \<noteq> []"
      | (failed_mask) "?missing = []" "list_ex (collides (strip_columns df)) (filter_columns cfg)"
      | (failed_numeric) "?missing = []"
          "\<not> list_ex (collides (strip_columns df)) (filter_columns cfg)"
          "?kept \<noteq> []" "list_ex (collides (strip_columns df)) (numeric_cols cfg)"
      | (no_data) "?missing = []" "\<not> list_ex (collides (strip_columns df)) (filter_columns cfg)"
          "?kept = []"
      | (extracted) "?missing = []" "\<not> list_ex (collides (strip_columns df)) (filter_columns cfg)"
          "?kept \<noteq> []" "\<not> list_ex (collides (strip_columns df)) (numeric_cols cfg)"
      by blast
    then show ?thesis
    proof cases
      case missing
      with d Some have "\<forall>st. collected (process_file cfg num st f) = collected st @ [] \<and>
                  printed (process_file cfg num st f) =
                    printed st @ [Found (file_name f), Skipped_Missing (file_name f) ?missing]"
        by (simp add: process_file_def say_def)
      then show ?thesis
        by (intro exI [of _ "[]"]
              exI [of _ "[Found (file_name f), Skipped_Missing (file_name f) ?missing]"]) simp
    next
      case failed_mask
      with d Some have "\<forall>st. collected (process_file cfg num st f) = collected st @ [] \<and>
                  printed (process_file cfg num st f) =
                    printed st @ [Found (file_name f), Failed (file_name f)]"
        by (simp add: process_file_def say_def Let_def)
      then show ?thesis
        by (intro exI [of _ "[]"] exI [of _ "[Found (file_name f), Failed (file_name f)]"]) simp
    next
      case failed_numeric
      with d Some have "\<forall>st. collected (process_file cfg num st f) = collected st @ [] \<and>
                  printed (process_file cfg num st f) =
                    printed st @ [Found (file_name f), Failed (file_name f)]"
        by (simp add: process_file_def say_def Let_def)
      then show ?thesis
        by (intro exI [of _ "[]"] exI [of _ "[Found (file_name f), Failed (file_name f)]"]) simp
    next
      case no_data
      with d Some have "\<forall>st. collected (process_file cfg num st f) = collected st @ [] \<and>
                  printed (process_file cfg num st f) =
                    printed st @ [Found (file_name f), No_Data (file_name f)]"
        by (simp add: process_file_def say_def Let_def)
      then show ?thesis
        by (intro exI [of _ "[]"] exI [of _ "[Found (file_name f), No_Data (file_name f)]"]) simp
    next
      case extracted
      have "\<forall>st. collected (process_file cfg num st f) = collected st @ [?tab] \<and>
                  printed (process_file cfg num st f) =
                    printed st @ [Found (file_name f), Extracted (file_name f) (length ?kept)]"
        by (simp add: process_file_extracted [OF d Some extracted(1,2) refl extracted(3,4)]
              say_def)
      moreover have "list_all module_shaped [?tab]"
        by (simp add: module_shaped_def list_all_iff)
      ultimately show ?thesis
        by (intro exI [of _ "[?tab]"]
              exI [of _ "[Found (file_name f), Extracted (file_name f) (length ?kept)]"]) simp
    qed
  qed
qed

lemma process_file_collected_cong:
  assumes eq: "collected st = collected st'"
  shows "collected (process_file cfg num st f) = collected (process_file cfg num st' f)"
proof -
  from process_file_effect [of cfg num f] obtain tabs where
    "\<And>st. collected (process_file cfg num st f) = collected st @ tabs"
    by blast
  with eq show ?thesis by simp
qed

lemma extract_collected_cong:
  "collected st = collected st' \<Longrightarrow>
     collected (foldl (process_file cfg num) st fs) =
     collected (foldl (process_file cfg num) st' fs)"
proof (induction fs arbitrary: st st')
  case Nil then show ?case by simp
next
  case (Cons f fs)
  from Cons.prems have "collected (process_file cfg num st f) = collected (process_file cfg num st' f)"
    by (rule process_file_collected_cong)
  then have "collected (foldl (process_file cfg num) (process_file cfg num st f) fs) =
             collected (foldl (process_file cfg num) (process_file cfg num st' f) fs)"
    by (rule Cons.IH)
  then show ?case by simp
qed

lemma process_file_printed_mono:
  assumes m: "m \<in> set (printed st)"
  shows "m \<in> set (printed (process_file cfg num st f))"
proof -
  from process_file_effect [of cfg num f] obtain msgs where
    "\<And>st. printed (process_file cfg num st f) = printed st @ msgs"
    by blast
  with m show ?thesis by simp
qed

lemma extract_printed_mono:
  "m \<in> set (printed st) \<Longrightarrow> m \<in> set (printed (foldl (process_file cfg num) st fs))"
proof (induction fs arbitrary: st)
  case Nil then show ?case by simp
next
  case (Cons f fs)
  from Cons.prems have "m \<in> set (printed (process_file cfg num st f))"
    by (rule process_file_printed_mono)
  then have "m \<in> set (printed (foldl (process_file cfg num) (process_file cfg num st f) fs))"
    by (rule Cons.IH)
  then show ?case by simp
qed

lemma process_file_skip:
  assumes "discovered cfg (file_name f)" "content f = Some df"
    "filter (\<lambda>col. col \<notin> set (columns (strip_columns df))) (core_columns cfg) \<noteq> []"
  shows "collected (process_file cfg num st f) = collected st"
    and "Skipped_Missing (file_name f)
           (filter (\<lambda>col. col \<notin> set (columns (strip_columns df))) (core_columns cfg))
         \<in> set (printed (process_file cfg num st f))"
  by (simp_all add: process_file_missing [OF assms] say_collected say_printed)

text \<open>
  C6. A file that the tool picks up and reads, and whose stripped headers lack at least
  one mandatory column, contributes no rows: the collected tables of the run are those
  of the same run without the file, so the files before and after it are processed as
  usual. The run prints a message that names the file and lists the missing columns.
  This holds for the BOM tool and the accessory tool (\<open>cfg\<close> is either).
\<close>

theorem missing_mandatory_column_skips_file:
  assumes "discovered cfg (file_name f)" and "content f = Some df"
    and "filter (\<lambda>col. col \<notin> set (columns (strip_columns df))) (core_columns cfg) \<noteq> []"
  shows "collected (extract_files cfg num (before @ f # after)) =
           collected (extract_files cfg num (before @ after)) \<and>
         Skipped_Missing (file_name f)
           (filter (\<lambda>col. col \<notin> set (columns (strip_columns df))) (core_columns cfg))
           \<in> set (printed (extract_files cfg num (before @ f # after)))"
proof -
  let ?st = "foldl (process_file cfg num) \<lparr>collected = [], printed = []\<rparr> before"
  have "collected (process_file cfg num ?st f) = collected ?st"
    using assms by (rule process_file_skip)
  then have "collected (foldl (process_file cfg num) (process_file cfg num ?st f) after) =
             collected (foldl (process_file cfg num) ?st after)"
    by (rule extract_collected_cong)
  moreover have "Skipped_Missing (file_name f)
           (filter (\<lambda>col. col \<notin> set (columns (strip_columns df))) (core_columns cfg))
         \<in> set (printed (process_file cfg num ?st f))"
    using assms by (rule process_file_skip)
  then have "Skipped_Missing (file_name f)
           (filter (\<lambda>col. col \<notin> set (columns (strip_columns df))) (core_columns cfg))
         \<in> set (printed (foldl (process_file cfg num) (process_file cfg num ?st f) after))"
    by (rule extract_printed_mono)
  ultimately show ?thesis by (simp add: extract_files_def)
qed

lemma re_digit_ascii: "c < 1632 \<Longrightarrow> re_digit c \<longleftrightarrow> 48 \<le> c \<and> c \<le> 57"
  by (simp add: re_digit_def digit_ranges_def)

lemmas rx_eval = module_name_of_def discovered_def re_sub_group1_def file_pattern_match_def
  match_to_end_def version_suffix_def Plus_def Opt_def lit_eq_def re_fold_def re_digit_ascii
  ascii_lower_cp_def Let_def

lemmas bom_eval = bom_pipeline_def strip_columns_def strip_row_def collides_def
  self_purchase_mask_def py_strip_def py_isspace_def df_calc_row_def coerce_numeric_def
  digits_to_numeric_def col_taobao_def col_order_def col_min_order_def col_module_def asc_def

lemma bom_good_file_table:
  "collected (process_file bom_pipeline digits_to_numeric st bom_good_file) =
     collected st @ [bom_good_table]"
proof -
  let ?df = "\<lparr>columns = core_columns bom_pipeline,
                rows = [(\<lambda>c. None)(asc ''Manufacturer Part'' := Some (asc ''LM2596''),
                          asc ''Quantity'' := Some (asc ''1''),
                          asc ''Designator'' := Some (asc ''U1''),
                          asc ''Supplier Part'' := Some (asc ''SP-1''),
                          asc ''LCSC Price'' := Some (asc ''3''),
                          asc ''Value'' := Some (asc ''3''),
                          col_taobao := Some (asc ''https://t''))]\<rparr>"
  have d: "discovered bom_pipeline (file_name bom_good_file)"
    by (simp add: bom_good_file_def rx_eval bom_pipeline_def asc_def)
  have c: "content bom_good_file = Some ?df" by (simp add: bom_good_file_def)
  have m: "filter (\<lambda>col. col \<notin> set (columns (strip_columns ?df))) (core_columns bom_pipeline) = []"
    by (simp add: bom_eval)
  have cf: "\<not> list_ex (collides (strip_columns ?df)) (filter_columns bom_pipeline)"
    by (simp add: bom_eval)
  have k: "filter (\<lambda>r. self_purchase_mask (filter_columns bom_pipeline)
                       (strip_row (columns ?df) r)) (rows ?df) \<noteq> []"
    by (simp add: bom_eval)
  have cn: "\<not> list_ex (collides (strip_columns ?df)) (numeric_cols bom_pipeline)"
    by (simp add: bom_eval)
  have n: "module_name_of bom_pipeline (file_name bom_good_file) = asc ''Power''"
    by (simp add: bom_good_file_def rx_eval bom_pipeline_def asc_def)
  have t: "map (\<lambda>r. (col_module, Txt (Some (asc ''Power''))) #
                      df_calc_row bom_pipeline digits_to_numeric (columns ?df) r)
             (filter (\<lambda>r. self_purchase_mask (filter_columns bom_pipeline)
                            (strip_row (columns ?df) r)) (rows ?df)) = bom_good_table"
    by (simp add: bom_eval bom_good_table_def)
  show ?thesis
    unfolding collected_process_file_extracted [OF d c m cf k cn] n t ..
qed

text \<open>
  A file whose numeric column collides ends with the failure message and adds no rows.
\<close>

lemma bom_collide_file_fails:
  "process_file bom_pipeline digits_to_numeric st bom_collide_file =
     say (Failed (asc ''BOM_Motor-v1.0.xlsx'')) (say (Found (asc ''BOM_Motor-v1.0.xlsx'')) st)"
proof -
  let ?df = "\<lparr>columns = core_columns bom_pipeline @ [asc '' Value''],
                rows = [(\<lambda>c. None)(asc ''Manufacturer Part'' := Some (asc ''LM2596''),
                          asc ''Quantity'' := Some (asc ''1''),
                          asc ''Value'' := Some (asc ''3''),
                          asc '' Value'' := Some (asc ''4''),
                          col_taobao := Some (asc ''https://t''))]\<rparr>"
  have d: "discovered bom_pipeline (file_name bom_collide_file)"
    by (simp add: bom_collide_file_def rx_eval bom_pipeline_def asc_def)
  have c: "content bom_collide_file = Some ?df" by (simp add: bom_collide_file_def)
  have m: "filter (\<lambda>col. col \<notin> set (columns (strip_columns ?df))) (core_columns bom_pipeline) = []"
    by (simp add: bom_eval)
  have cf: "\<not> list_ex (collides (strip_columns ?df)) (filter_columns bom_pipeline)"
    by (simp add: bom_eval)
  have k: "filter (\<lambda>r. self_purchase_mask (filter_columns bom_pipeline)
                       (strip_row (columns ?df) r)) (rows ?df) \<noteq> []"
    by (simp add: bom_eval)
  have cn: "list_ex (collides (strip_columns ?df)) (numeric_cols bom_pipeline)"
    by (simp add: bom_eval)
  have n: "file_name bom_collide_file = asc ''BOM_Motor-v1.0.xlsx''"
    by (simp add: bom_collide_file_def)
  show ?thesis
    unfolding process_file_numeric_collision [OF d c m cf k cn] n ..
qed

text \<open>
  An instance: a BOM file with only a designator and a value column comes first, a
  complete BOM file second. The run collects the table of the second file alone and
  prints the seven missing columns of the first.
\<close>

theorem missing_mandatory_column_skips_file_witness:
  "discovered bom_pipeline (file_name bom_bad_file) \<and>
   content bom_bad_file = Some bom_bad_df \<and>
   filter (\<lambda>col. col \<notin> set (columns (strip_columns bom_bad_df))) (core_columns bom_pipeline) =
     [asc ''Manufacturer Part'', asc ''Quantity'', asc ''Supplier Part'', asc ''LCSC Price'',
      col_taobao, col_order, col_min_order] \<and>
   collected (extract_files bom_pipeline digits_to_numeric [bom_bad_file, bom_good_file]) =
     [bom_good_table] \<and>
   Skipped_Missing (asc ''BOM_Sensor-v1.0.xlsx'')
     [asc ''Manufacturer Part'', asc ''Quantity'', asc ''Supplier Part'', asc ''LCSC Price'',
      col_taobao, col_order, col_min_order]
     \<in> set (printed (extract_files bom_pipeline digits_to_numeric [bom_bad_file, bom_good_file]))"
proof -
  have d: "discovered bom_pipeline (file_name bom_bad_file)"
    by (simp add: bom_bad_file_def rx_eval bom_pipeline_def asc_def)
  have c: "content bom_bad_file = Some bom_bad_df" by (simp add: bom_bad_file_def)
  have m: "filter (\<lambda>col. col \<notin> set (columns (strip_columns bom_bad_df))) (core_columns bom_pipeline) =
     [asc ''Manufacturer Part'', asc ''Quantity'', asc ''Supplier Part'', asc ''LCSC Price'',
      col_taobao, col_order, col_min_order]"
    by (simp add: bom_bad_df_def strip_columns_def bom_pipeline_def py_strip_def py_isspace_def
          col_taobao_def col_order_def col_min_order_def asc_def)
  then have ne: "filter (\<lambda>col. col \<notin> set (columns (strip_columns bom_bad_df)))
                   (core_columns bom_pipeline) \<noteq> []"
    by simp
  have n: "file_name bom_bad_file = asc ''BOM_Sensor-v1.0.xlsx''" by (simp add: bom_bad_file_def)
  have e: "collected (extract_files bom_pipeline digits_to_numeric ([] @ [bom_good_file])) =
             [bom_good_table]"
    by (simp add: extract_files_def bom_good_file_table)
  from missing_mandatory_column_skips_file [OF d c ne, of digits_to_numeric "[]" "[bom_good_file]"]
  have "collected (extract_files bom_pipeline digits_to_numeric [bom_bad_file, bom_good_file]) =
          [bom_good_table] \<and>
        Skipped_Missing (asc ''BOM_Sensor-v1.0.xlsx'')
          [asc ''Manufacturer Part'', asc ''Quantity'', asc ''Supplier Part'', asc ''LCSC Price'',
           col_taobao, col_order, col_min_order]
        \<in> set (printed (extract_files bom_pipeline digits_to_numeric [bom_bad_file, bom_good_file]))"
    unfolding m n e by simp
  with d c m show ?thesis by (simp only: simp_thms)
qed

subsection \<open>Module names\<close>

text \<open>
  C4 at its failing inputs. The file names below differ from the pattern of their
  family in letter case only, so the case-insensitive discovery picks them up; the
  substitution that derives the module name matches case-sensitively, does not match,
  and returns the whole file name. The file name of the specification's example, which
  has the case of the pattern, gives \<open>PowerModule\<close>.
\<close>

theorem module_name_case_sensitive:
  "discovered bom_pipeline (asc ''bom_Power-v1.0.xlsx'') \<and>
   module_name_of bom_pipeline (asc ''bom_Power-v1.0.xlsx'') = asc ''bom_Power-v1.0.xlsx'' \<and>
   discovered bom_pipeline (asc ''BOM_Power-V1.0.xlsx'') \<and>
   module_name_of bom_pipeline (asc ''BOM_Power-V1.0.xlsx'') = asc ''BOM_Power-V1.0.xlsx'' \<and>
   discovered accessory_pipeline (asc ''ModAcc_MG811-v1.2.0.xlsx'') \<and>
   module_name_of accessory_pipeline (asc ''ModAcc_MG811-v1.2.0.xlsx'') =
     asc ''ModAcc_MG811-v1.2.0.xlsx'' \<and>
   module_name_of bom_pipeline (asc ''BOM_PowerModule-v1.2.0.xlsx'') = asc ''PowerModule'' \<and>
   module_name_of accessory_pipeline (asc ''ModAcc_MG811-V1.2.0.xlsx'') = asc ''MG811''"
  by (simp add: rx_eval bom_pipeline_def accessory_pipeline_def asc_def)

text \<open>
  Beyond ASCII: discovery accepts the long s (U+017F) for the \<open>s\<close> of the extension, and
  the substitution accepts an Arabic-Indic digit (U+0661) in the version.
\<close>

lemma unicode_file_names:
  "discovered bom_pipeline (asc ''bom_X-v1.0.xl'' @ [383, 120])"
  "module_name_of bom_pipeline (asc ''bom_X-v1.0.xl'' @ [383, 120]) =
     asc ''bom_X-v1.0.xl'' @ [383, 120]"
  "module_name_of bom_pipeline (asc ''BOM_X-v'' @ [1633] @ asc ''.0.xlsx'') = asc ''X''"
  by (simp_all add: rx_eval re_digit_def digit_ranges_def bom_pipeline_def asc_def)

subsection \<open>Totals\<close>

lemma drop_duplicates_first_map_key:
  "map key (drop_duplicates_first key seen xs) = drop_duplicates_first (\<lambda>x. x) seen (map key xs)"
  by (induction xs arbitrary: seen) auto

lemma sum_list_delta0:
  "k \<notin> set ks \<Longrightarrow> sum_list (map (\<lambda>m. if k = m then (c::rat) else 0) ks) = 0"
  by (induction ks) auto

lemma sum_list_delta:
  "distinct ks \<Longrightarrow> k \<in> set ks \<Longrightarrow> sum_list (map (\<lambda>m. if k = m then (c::rat) else 0) ks) = c"
  by (induction ks) (auto simp: sum_list_delta0)

lemma sum_by_group:
  "distinct ks \<Longrightarrow> g ` set xs \<subseteq> set ks \<Longrightarrow>
     sum_list (map (\<lambda>m. sum_list (map f (filter (\<lambda>r. g r = m) xs))) ks) =
     (sum_list (map f xs) :: rat)"
proof (induction xs)
  case Nil then show ?case by simp
next
  case (Cons x xs)
  have "sum_list (map (\<lambda>m. sum_list (map f (filter (\<lambda>r. g r = m) (x # xs)))) ks) =
        sum_list (map (\<lambda>m. (if g x = m then f x else 0) +
                            sum_list (map f (filter (\<lambda>r. g r = m) xs))) ks)"
    by (rule arg_cong [where f = sum_list], rule map_cong) auto
  also have "\<dots> = sum_list (map (\<lambda>m. if g x = m then f x else 0) ks) +
                  sum_list (map (\<lambda>m. sum_list (map f (filter (\<lambda>r. g r = m) xs))) ks)"
    by (simp add: sum_list_addf)
  also have "\<dots> = f x + sum_list (map f xs)"
    using Cons by (simp add: sum_list_delta)
  finally show ?case by simp
qed

lemma unique_set: "set (unique xs) = set xs"
proof -
  have "\<And>seen. set (drop_duplicates_first (\<lambda>x. x) seen xs) = set xs - set seen"
    by (induction xs) auto
  then show ?thesis by (simp add: unique_def)
qed

lemma unique_distinct: "distinct (unique xs)"
  using drop_duplicates_first_distinct [of "\<lambda>x. x" "[]" xs] by (simp add: unique_def)

lemma module_totals_sum:
  "sum_list (map snd (module_total df)) = sum_list (map (value_of (asc ''Value'')) df)"
proof -
  have "sum_list (map snd (module_total df)) =
        sum_list (map (\<lambda>m. sum_list (map (value_of (asc ''Value'')) (filter (\<lambda>r. module_cell r = m) df)))
                   (unique (map module_cell df)))"
    by (simp add: module_total_def comp_def)
  also have "\<dots> = sum_list (map (value_of (asc ''Value'')) df)"
    by (rule sum_by_group) (simp_all add: unique_distinct unique_set)
  finally show ?thesis .
qed


lemma drop_duplicates_first_map:
  "(\<And>x. x \<in> set xs \<Longrightarrow> key (f x) = key' x) \<Longrightarrow>
     drop_duplicates_first key seen (map f xs) = map f (drop_duplicates_first key' seen xs)"
  by (induction xs arbitrary: seen) auto

lemma map_of_tabulate:
  "map_of (map (\<lambda>k. (k, f k)) ks) k = (if k \<in> set ks then Some (f k) else None)"
  by (induction ks) auto

lemma total_col_names: "bom_total_col \<noteq> col_module" "accessory_total_col \<noteq> col_module"
  by (simp_all add: bom_total_col_def accessory_total_col_def col_module_def)

lemma merged_row:
  assumes "r \<noteq> []" "fst (hd r) = col_module" "tc \<noteq> col_module"
  shows "module_cell (take 1 r @ [(tc, Num t)] @ drop 1 r) = module_cell r"
    and "value_of tc (take 1 r @ [(tc, Num t)] @ drop 1 r) = t"
  using assms by (cases r; cases "hd r"; simp add: module_cell_def value_of_def)+

lemma module_total_lookup:
  "m \<in> set (map module_cell df) \<Longrightarrow>
     (case map_of (module_total df) m of None \<Rightarrow> 0 | Some t \<Rightarrow> t) =
     sum_list (map (value_of (asc ''Value'')) (filter (\<lambda>r. module_cell r = m) df))"
  by (simp add: module_total_def map_of_tabulate unique_set)

lemma bom_total_eq:
  assumes sh: "module_shaped df"
  shows "bom_total df = sum_list (map snd (module_total df))"
proof -
  let ?T = "\<lambda>m. case map_of (module_total df) m of None \<Rightarrow> 0 | Some t \<Rightarrow> t"
  let ?ins = "\<lambda>r. take 1 r @ [(bom_total_col, Num (?T (module_cell r)))] @ drop 1 r"
  from sh have shape: "\<And>r. r \<in> set df \<Longrightarrow> r \<noteq> [] \<and> fst (hd r) = col_module"
    by (simp add: module_shaped_def list_all_iff)
  have mc: "\<And>r. r \<in> set df \<Longrightarrow> module_cell (?ins r) = module_cell r"
    using shape merged_row(1) [OF _ _ total_col_names(1)] by blast
  have vt: "\<And>r. r \<in> set df \<Longrightarrow> value_of bom_total_col (?ins r) = ?T (module_cell r)"
    using shape merged_row(2) [OF _ _ total_col_names(1)] by blast
  have "drop_duplicates_first module_cell [] (merge_total bom_total_col df) =
        map ?ins (drop_duplicates_first module_cell [] df)"
    unfolding merge_total_def by (rule drop_duplicates_first_map) (rule mc)
  then have "bom_total df =
      sum_list (map (\<lambda>r. value_of bom_total_col (?ins r)) (drop_duplicates_first module_cell [] df))"
    by (simp add: bom_total_def comp_def)
  also have "\<dots> = sum_list (map (\<lambda>r. ?T (module_cell r)) (drop_duplicates_first module_cell [] df))"
    by (rule arg_cong [where f = sum_list], rule map_cong)
       (use drop_duplicates_first_subset [of module_cell "[]" df] vt in auto)
  also have "\<dots> = sum_list (map ?T (map module_cell (drop_duplicates_first module_cell [] df)))"
    by (simp add: comp_def)
  also have "\<dots> = sum_list (map ?T (unique (map module_cell df)))"
    by (simp add: drop_duplicates_first_map_key unique_def)
  also have "\<dots> = sum_list (map (\<lambda>m. sum_list (map (value_of (asc ''Value''))
                        (filter (\<lambda>r. module_cell r = m) df))) (unique (map module_cell df)))"
    by (rule arg_cong [where f = sum_list], rule map_cong)
       (simp_all add: module_total_lookup unique_set)
  also have "\<dots> = sum_list (map snd (module_total df))"
    by (simp add: module_total_def comp_def)
  finally show ?thesis .
qed

lemma collected_shaped:
  assumes inv: "list_all module_shaped (collected st)"
  shows "list_all module_shaped (collected (process_file cfg num st f))"
proof -
  from process_file_effect [of cfg num f] obtain tabs where
    "list_all module_shaped tabs"
    "\<And>st. collected (process_file cfg num st f) = collected st @ tabs"
    by blast
  with inv show ?thesis by simp
qed

lemma extract_files_shaped:
  "module_shaped (concat (collected (extract_files cfg num files)))"
proof -
  have "\<And>st. list_all module_shaped (collected st) \<Longrightarrow>
          list_all module_shaped (collected (foldl (process_file cfg num) st files))"
  proof (induction files)
    case Nil then show ?case by simp
  next
    case (Cons f fs)
    from Cons.prems have "list_all module_shaped (collected (process_file cfg num st f))"
      by (rule collected_shaped)
    then have "list_all module_shaped
                 (collected (foldl (process_file cfg num) (process_file cfg num st f) fs))"
      by (rule Cons.IH)
    then show ?case by simp
  qed
  then have "list_all module_shaped (collected (extract_files cfg num files))"
    by (simp add: extract_files_def)
  then show ?thesis by (auto simp: module_shaped_def list_all_iff)
qed

text \<open>
  The BOM tool reports the sum of the module totals, which is the sum of the values of
  all rows, for every table of the shape that the extraction builds, in any row order.
\<close>

lemma bom_total_sums_all_values:
  "module_shaped df \<Longrightarrow>
     bom_total df = sum_list (map snd (module_total df)) \<and>
     bom_total df = sum_list (map (value_of (asc ''Value'')) df)"
  by (simp add: bom_total_eq module_totals_sum)

lemma acc_names:
  "discovered accessory_pipeline (asc ''ModAcc_A-V1.0.xlsx'')"
  "module_name_of accessory_pipeline (asc ''ModAcc_A-V1.0.xlsx'') = asc ''A''"
  "discovered accessory_pipeline (asc ''ModAcc_B-V1.0.xlsx'')"
  "module_name_of accessory_pipeline (asc ''ModAcc_B-V1.0.xlsx'') = asc ''B''"
  by (simp_all add: rx_eval accessory_pipeline_def asc_def)

lemmas acc_eval = accessory_pipeline_def strip_columns_def strip_row_def collides_def
  self_purchase_mask_def acc_row_def py_strip_def py_isspace_def df_calc_row_def
  coerce_numeric_def digits_to_numeric_def col_taobao_def col_order_def col_min_order_def
  col_module_def asc_def

lemma acc_file_a_table:
  "collected (process_file accessory_pipeline digits_to_numeric st acc_file_a) =
     collected st @ [[acc_table ! 0]]"
proof -
  let ?df = "\<lparr>columns = core_columns accessory_pipeline,
                rows = [acc_row (asc ''1'') (asc ''Cable'') (asc ''10'') (asc ''10'')
                          (asc ''https://a'')]\<rparr>"
  have d: "discovered accessory_pipeline (file_name acc_file_a)"
    by (simp add: acc_file_a_def rx_eval accessory_pipeline_def asc_def)
  have c: "content acc_file_a = Some ?df" by (simp add: acc_file_a_def)
  have m: "filter (\<lambda>col. col \<notin> set (columns (strip_columns ?df))) (core_columns accessory_pipeline) = []"
    by (simp add: acc_eval)
  have cf: "\<not> list_ex (collides (strip_columns ?df)) (filter_columns accessory_pipeline)"
    by (simp add: acc_eval)
  have k: "filter (\<lambda>r. self_purchase_mask (filter_columns accessory_pipeline)
                       (strip_row (columns ?df) r)) (rows ?df) \<noteq> []"
    by (simp add: acc_eval)
  have cn: "\<not> list_ex (collides (strip_columns ?df)) (numeric_cols accessory_pipeline)"
    by (simp add: acc_eval)
  have n: "module_name_of accessory_pipeline (file_name acc_file_a) = asc ''A''"
    by (simp add: acc_file_a_def rx_eval accessory_pipeline_def asc_def)
  have t: "map (\<lambda>r. (col_module, Txt (Some (asc ''A''))) #
                      df_calc_row accessory_pipeline digits_to_numeric (columns ?df) r)
             (filter (\<lambda>r. self_purchase_mask (filter_columns accessory_pipeline)
                            (strip_row (columns ?df) r)) (rows ?df)) = [acc_table ! 0]"
    by (simp add: acc_eval acc_table_def)
  show ?thesis
    unfolding collected_process_file_extracted [OF d c m cf k cn] n t ..
qed

lemma acc_file_b_table:
  "collected (process_file accessory_pipeline digits_to_numeric st acc_file_b) =
     collected st @ [[acc_table ! 1]]"
proof -
  let ?df = "\<lparr>columns = core_columns accessory_pipeline,
                rows = [acc_row (asc ''2'') (asc ''Screw'') (asc ''5'') (asc ''10'')
                          (asc ''https://b'')]\<rparr>"
  have d: "discovered accessory_pipeline (file_name acc_file_b)"
    by (simp add: acc_file_b_def rx_eval accessory_pipeline_def asc_def)
  have c: "content acc_file_b = Some ?df" by (simp add: acc_file_b_def)
  have m: "filter (\<lambda>col. col \<notin> set (columns (strip_columns ?df))) (core_columns accessory_pipeline) = []"
    by (simp add: acc_eval)
  have cf: "\<not> list_ex (collides (strip_columns ?df)) (filter_columns accessory_pipeline)"
    by (simp add: acc_eval)
  have k: "filter (\<lambda>r. self_purchase_mask (filter_columns accessory_pipeline)
                       (strip_row (columns ?df) r)) (rows ?df) \<noteq> []"
    by (simp add: acc_eval)
  have cn: "\<not> list_ex (collides (strip_columns ?df)) (numeric_cols accessory_pipeline)"
    by (simp add: acc_eval)
  have n: "module_name_of accessory_pipeline (file_name acc_file_b) = asc ''B''"
    by (simp add: acc_file_b_def rx_eval accessory_pipeline_def asc_def)
  have t: "map (\<lambda>r. (col_module, Txt (Some (asc ''B''))) #
                      df_calc_row accessory_pipeline digits_to_numeric (columns ?df) r)
             (filter (\<lambda>r. self_purchase_mask (filter_columns accessory_pipeline)
                            (strip_row (columns ?df) r)) (rows ?df)) = [acc_table ! 1]"
    by (simp add: acc_eval acc_table_def)
  show ?thesis
    unfolding collected_process_file_extracted [OF d c m cf k cn] n t ..
qed

lemma acc_extraction:
  "concat (collected (extract_files accessory_pipeline digits_to_numeric
     [acc_file_a, acc_file_b])) = acc_table"
  by (simp add: extract_files_def acc_file_a_table acc_file_b_table acc_table_def)

text \<open>
  C1 at its failing input, in the accessory tool. The two accessory lists of the example
  give one row per module, each of value 10. The module totals are 10 and 10, their sum
  and the sum of all values is 20, and the tool reports 10: it sums the distinct values
  of the total column, and the two modules have the same total.
\<close>

theorem accessory_total_amount_equal_module_totals:
  "concat (collected (extract_files accessory_pipeline digits_to_numeric
     [acc_file_a, acc_file_b])) = acc_table \<and>
   map snd (module_total acc_table) = [10, 10] \<and>
   sum_list (map (value_of (asc ''Value'')) acc_table) = 20 \<and>
   accessory_total_amount acc_table = 10 \<and>
   bom_total acc_table = 20"
proof -
  have "map snd (module_total acc_table) = [10, 10]"
    "sum_list (map (value_of (asc ''Value'')) acc_table) = 20"
    "accessory_total_amount acc_table = 10"
    "bom_total acc_table = 20"
    by (simp_all add: accessory_total_amount_def bom_total_def merge_total_def module_total_def
          unique_def acc_table_def module_cell_def value_of_def accessory_total_col_def
          bom_total_col_def col_taobao_def col_order_def col_min_order_def col_module_def asc_def)
  with acc_extraction show ?thesis by (simp only: simp_thms)
qed

end
